theory Spec2Isabelle
  imports Complex_Main "HOL-Library.Word" "HOL-Library.Multiset"
begin

section \<open>JavaScript values\<close>

text \<open>
  A JavaScript string is a sequence of UTF-16 code units and \<open>.length\<close> counts them,
  so form input is a list of 16-bit words. Program literals are ASCII and are written
  with \<open>js\<close>. Property names, routes and the fixed messages of the schemas stay
  Isabelle strings.
\<close>

type_synonym code_unit = "16 word"
type_synonym js_string = "code_unit list"

definition js :: "string \<Rightarrow> js_string" where
  "js s = map (\<lambda>c. of_char c) s"

text \<open>
  A number is a double: not-a-number, an infinity, or a finite value, kept as the
  rational it denotes. \<open>isInteger\<close> is \<open>Number.isInteger\<close>.
\<close>

datatype js_number = NaN | PosInf | NegInf | Finite rat

fun isInteger :: "js_number \<Rightarrow> bool" where
  "isInteger (Finite q) = (q = of_int \<lfloor>q\<rfloor>)"
| "isInteger _ = False"

datatype js_value =
    JUndefined
  | JNull
  | JBool bool
  | JNum js_number
  | JStr js_string
  | JServerTimestamp
  | JArr "js_value list"
  | JObj "(string \<times> js_value) list"

type_synonym js_object = "string \<rightharpoonup> js_value"

text \<open>
  An object as the program builds it: its own properties in insertion order, each key
  once. Assigning a key that is present replaces its value in place; an object literal
  assigns its entries from left to right, a spread contributing the entries of its
  operand, so a later entry wins.
\<close>

type_synonym js_fields = "(string \<times> js_value) list"

fun set_key :: "string \<Rightarrow> js_value \<Rightarrow> js_fields \<Rightarrow> js_fields" where
  "set_key k v [] = [(k, v)]"
| "set_key k v ((k', v') # kvs) =
     (if k' = k then (k, v) # kvs else (k', v') # set_key k v kvs)"

definition object :: "js_fields \<Rightarrow> js_fields" where
  "object entries = foldl (\<lambda>ob kv. set_key (fst kv) (snd kv) ob) [] entries"

text \<open>\<open>undefined\<close> anywhere inside a value, as the store's client looks for it.\<close>

fun has_undefined :: "js_value \<Rightarrow> bool" where
  "has_undefined JUndefined = True"
| "has_undefined (JArr vs) = list_ex has_undefined vs"
| "has_undefined (JObj kvs) = list_ex (\<lambda>kv. has_undefined (snd kv)) kvs"
| "has_undefined _ = False"

text \<open>\<open>a || b\<close>: the left operand when it is truthy, the right one otherwise.\<close>

fun truthy :: "js_value \<Rightarrow> bool" where
  "truthy JUndefined = False"
| "truthy JNull = False"
| "truthy (JBool b) = b"
| "truthy (JNum n) = (n \<noteq> NaN \<and> n \<noteq> Finite 0)"
| "truthy (JStr s) = (s \<noteq> [])"
| "truthy _ = True"

definition js_or :: "js_value \<Rightarrow> js_value \<Rightarrow> js_value" where
  "js_or a b = (if truthy a then a else b)"

text \<open>A nullable string property (\<open>string | null\<close>) read as a value.\<close>

definition nullable :: "js_string option \<Rightarrow> js_value" where
  "nullable v = (case v of None \<Rightarrow> JNull | Some s \<Rightarrow> JStr s)"

text \<open>\<open>o?.k\<close> on an optional object: \<open>undefined\<close> when the object or the key is missing.\<close>

definition opt_get :: "js_fields option \<Rightarrow> string \<Rightarrow> js_value" where
  "opt_get ob k = (case ob of None \<Rightarrow> JUndefined
                   | Some m \<Rightarrow> (case map_of m k of None \<Rightarrow> JUndefined | Some v \<Rightarrow> v))"

text \<open>\<open>{...o}\<close> on an optional object: spreading \<open>undefined\<close> adds nothing.\<close>

definition spread :: "js_fields option \<Rightarrow> js_fields" where
  "spread ob = (case ob of None \<Rightarrow> [] | Some m \<Rightarrow> m)"

text \<open>A rejected promise carries an error with an optional \<open>code\<close> and a \<open>message\<close>.\<close>

datatype js_error = Error (code: "js_string option") (err_message: js_string)

section \<open>Notifications and validation issues\<close>

datatype toast = Toast (variant: "string option") (toast_title: string)
  (description: "js_string option")

datatype issue = Issue (path: "string list") (message: string)

text \<open>
  \<open>form.handleSubmit(onValid)\<close> with a schema resolver.

  Modelled from the spec: the form library is not part of the sources. Validation errors
  are "caught before any network call, rendered inline per field, never sent to a
  notification", and the contract is two-stage, validate then submit: the handler runs
  on the parsed values only when the schema reports no issue.
\<close>

definition handleSubmit ::
  "('d \<Rightarrow> issue list + 'v) \<Rightarrow> (issue list \<Rightarrow> 's \<Rightarrow> 's) \<Rightarrow> ('v \<Rightarrow> 's \<Rightarrow> 's) \<Rightarrow> 'd \<Rightarrow> 's \<Rightarrow> 's" where
  "handleSubmit resolver setErrors onValid d s =
     (case resolver d of
        Inl issues \<Rightarrow> setErrors issues s
      | Inr v \<Rightarrow> onValid v (setErrors [] s))"

section \<open>The document store\<close>

text \<open>
  The remote database: documents addressed by collection and id, each a map from field
  names to values. A call either is performed or is rejected; what the server rejects is
  not decided by the client, so the rejections are part of the database value:
  \<open>read_fault\<close> rejects every read, \<open>write_fault\<close> every write, and \<open>update_missing\<close>
  is the answer to an update of a document that does not exist.
  The store's client refuses data that holds \<open>undefined\<close> before anything is sent;
  \<open>invalid_data\<close> is the error it throws then.
  The client handle (\<open>useFirestore()\<close>) is separate and may be \<open>null\<close>.
\<close>

type_synonym doc_ref = "string \<times> js_string"

record database =
  docs :: "doc_ref \<rightharpoonup> js_object"
  read_fault :: "js_error option"
  write_fault :: "js_error option"
  update_missing :: js_error
  invalid_data :: js_error

datatype firestore = Firestore

definition valid_data :: "js_fields \<Rightarrow> bool" where
  "valid_data flds = (\<not> list_ex (\<lambda>kv. has_undefined (snd kv)) flds)"

definition getDoc :: "database \<Rightarrow> doc_ref \<Rightarrow> js_error + js_object option" where
  "getDoc db r = (case read_fault db of Some e \<Rightarrow> Inl e | None \<Rightarrow> Inr (docs db r))"

definition setDoc :: "database \<Rightarrow> doc_ref \<Rightarrow> js_fields \<Rightarrow> js_error + database" where
  "setDoc db r flds =
     (if \<not> valid_data flds then Inl (invalid_data db)
      else (case write_fault db of
              Some e \<Rightarrow> Inl e
            | None \<Rightarrow> Inr (db\<lparr>docs := (docs db)(r \<mapsto> map_of flds)\<rparr>)))"

definition addDoc :: "database \<Rightarrow> string \<Rightarrow> js_string \<Rightarrow> js_fields \<Rightarrow> js_error + database" where
  \<comment> \<open>the generated id is the third argument\<close>
  "addDoc db coll new_id flds = setDoc db (coll, new_id) flds"

definition updateDoc :: "database \<Rightarrow> doc_ref \<Rightarrow> js_fields \<Rightarrow> js_error + database" where
  "updateDoc db r flds =
     (if \<not> valid_data flds then Inl (invalid_data db)
      else (case write_fault db of
              Some e \<Rightarrow> Inl e
            | None \<Rightarrow>
                (case docs db r of
                   None \<Rightarrow> Inl (update_missing db)
                 | Some old \<Rightarrow> Inr (db\<lparr>docs := (docs db)(r \<mapsto> old ++ map_of flds)\<rparr>))))"

section \<open>Account flow\<close>

subsection \<open>Schemas\<close>

record login_data =
  login_email :: js_string
  login_password :: js_string
  rememberMe :: bool

record signup_data =
  name :: js_string
  email :: js_string
  phone :: js_string
  password :: js_string
  confirmPassword :: js_string
  agreeToTerms :: bool

text \<open>
  One check of a schema: the issue it raises, or none. A failed \<open>min\<close>, \<open>email\<close> or
  \<open>refine\<close> marks the field dirty without aborting, so the remaining checks and the
  refinement on the whole object still run and every issue is collected.
  What counts as a well-formed email is the validation library's; it is a parameter.
\<close>

definition fails :: "bool \<Rightarrow> string list \<Rightarrow> string \<Rightarrow> issue list" where
  "fails bad p m = (if bad then [Issue p m] else [])"

definition loginSchema_issues :: "(js_string \<Rightarrow> bool) \<Rightarrow> login_data \<Rightarrow> issue list" where
  "loginSchema_issues is_email d =
     fails (\<not> is_email (login_email d)) [''email''] ''Invalid email address.''
   @ fails (length (login_password d) < 1) [''password''] ''Password is required.''"

definition loginSchema :: "(js_string \<Rightarrow> bool) \<Rightarrow> login_data \<Rightarrow> issue list + login_data" where
  "loginSchema is_email d =
     (case loginSchema_issues is_email d of [] \<Rightarrow> Inr d | i # is \<Rightarrow> Inl (i # is))"

definition signupSchema_issues :: "(js_string \<Rightarrow> bool) \<Rightarrow> signup_data \<Rightarrow> issue list" where
  "signupSchema_issues is_email d =
     fails (length (name d) < 2) [''name''] ''Name must be at least 2 characters.''
   @ fails (\<not> is_email (email d)) [''email''] ''Invalid email address.''
   @ fails (length (phone d) < 10) [''phone''] ''Enter a valid 10-digit phone number.''
   @ fails (length (password d) < 6) [''password''] ''Password must be at least 6 characters.''
   @ fails (\<not> (agreeToTerms d = True)) [''agreeToTerms'']
       ''You must accept the terms and conditions.''
   @ fails (\<not> (password d = confirmPassword d)) [''confirmPassword'']
       ''Passwords don't match.''"

definition signupSchema :: "(js_string \<Rightarrow> bool) \<Rightarrow> signup_data \<Rightarrow> issue list + signup_data" where
  "signupSchema is_email d =
     (case signupSchema_issues is_email d of [] \<Rightarrow> Inr d | i # is \<Rightarrow> Inl (i # is))"

subsection \<open>The identity provider and the form's state\<close>

record fb_user =
  uid :: js_string
  user_email :: "js_string option"
  displayName :: "js_string option"
  phoneNumber :: "js_string option"

text \<open>
  The provider's answers are its own; the handle carries them. The calls made are logged
  in the state, so that "no account-creation call occurs" is a statement about the log.
\<close>

record auth =
  signInWithEmailAndPassword :: "js_string \<Rightarrow> js_string \<Rightarrow> js_error + fb_user"
  createUserWithEmailAndPassword :: "js_string \<Rightarrow> js_string \<Rightarrow> js_error + fb_user"

datatype auth_call = SignIn js_string js_string | CreateUser js_string js_string

fun is_create :: "auth_call \<Rightarrow> bool" where
  "is_create (CreateUser _ _) = True"
| "is_create _ = False"

record auth_form =
  loading :: bool
  toasts :: "toast list"
  pushed :: "string list"
  field_errors :: "issue list"
  auth_calls :: "auth_call list"
  remote :: database

definition setLoading :: "bool \<Rightarrow> auth_form \<Rightarrow> auth_form" where
  "setLoading b s = s\<lparr>loading := b\<rparr>"

definition emit :: "toast \<Rightarrow> auth_form \<Rightarrow> auth_form" where
  "emit t s = s\<lparr>toasts := toasts s @ [t]\<rparr>"

definition router_push :: "string \<Rightarrow> auth_form \<Rightarrow> auth_form" where
  "router_push r s = s\<lparr>pushed := pushed s @ [r]\<rparr>"

definition setErrors :: "issue list \<Rightarrow> auth_form \<Rightarrow> auth_form" where
  "setErrors is s = s\<lparr>field_errors := is\<rparr>"

definition called :: "auth_call \<Rightarrow> auth_form \<Rightarrow> auth_form" where
  "called c s = s\<lparr>auth_calls := auth_calls s @ [c]\<rparr>"

subsection \<open>handleUserDoc\<close>

text \<open>
  The object literal of the write: later keys win, so the spread of \<open>additionalData\<close>
  overrides the keys before it.
\<close>

definition userDocFields :: "fb_user \<Rightarrow> js_fields option \<Rightarrow> js_fields" where
  "userDocFields user additionalData =
     object
       ([(''uid'', JStr (uid user)),
         (''email'', nullable (user_email user)),
         (''name'', js_or (nullable (displayName user)) (opt_get additionalData ''name'')),
         (''phone'', js_or (js_or (nullable (phoneNumber user)) (opt_get additionalData ''phone''))
                       (JStr (js ''''))),
         (''role'', JStr (js ''customer'')),
         (''createdAt'', JServerTimestamp)]
        @ spread additionalData)"

definition handleUserDoc ::
  "firestore option \<Rightarrow> database \<Rightarrow> fb_user \<Rightarrow> js_fields option \<Rightarrow> js_error + database" where
  "handleUserDoc fs d user additionalData =
     (case fs of
        None \<Rightarrow> Inr d
      | Some _ \<Rightarrow>
          (case getDoc d (''users'', uid user) of
             Inl e \<Rightarrow> Inl e
           | Inr userDoc \<Rightarrow>
               (case userDoc of
                  None \<Rightarrow> setDoc d (''users'', uid user) (userDocFields user additionalData)
                | Some _ \<Rightarrow> Inr d)))"

subsection \<open>Submit handlers\<close>

definition onLoginSubmit :: "auth option \<Rightarrow> login_data \<Rightarrow> auth_form \<Rightarrow> auth_form" where
  "onLoginSubmit au d s0 =
     (let s1 = setLoading True s0 in
      case au of
        None \<Rightarrow> setLoading False s1
      | Some a \<Rightarrow>
          (let s2 = called (SignIn (login_email d) (login_password d)) s1 in
           setLoading False
             (case signInWithEmailAndPassword a (login_email d) (login_password d) of
                Inr _ \<Rightarrow>
                  router_push ''/'' (emit (Toast None ''Successfully logged in!'' None) s2)
              | Inl err \<Rightarrow>
                  emit (Toast (Some ''destructive'') ''Login Failed''
                          (Some (js ''Invalid email or password.''))) s2)))"

definition signup_failure :: "js_error \<Rightarrow> toast" where
  "signup_failure err =
     Toast (Some ''destructive'') ''Sign-up Failed''
       (Some (if code err = Some (js ''auth/email-already-in-use'')
              then js ''An account with this email already exists.''
              else err_message err))"

definition onSignupSubmit ::
  "auth option \<Rightarrow> firestore option \<Rightarrow> signup_data \<Rightarrow> auth_form \<Rightarrow> auth_form" where
  "onSignupSubmit au fs d s0 =
     (let s1 = setLoading True s0 in
      case au of
        None \<Rightarrow> setLoading False s1
      | Some a \<Rightarrow>
          (let s2 = called (CreateUser (email d) (password d)) s1 in
           setLoading False
             (case createUserWithEmailAndPassword a (email d) (password d) of
                Inl err \<Rightarrow> emit (signup_failure err) s2
              | Inr user \<Rightarrow>
                  (case handleUserDoc fs (remote s2) user
                          (Some [(''name'', JStr (name d)), (''phone'', JStr (phone d))]) of
                     Inl err \<Rightarrow> emit (signup_failure err) s2
                   | Inr d' \<Rightarrow>
                       router_push ''/''
                         (emit (Toast None ''Successfully signed up!'' None)
                            (s2\<lparr>remote := d'\<rparr>))))))"

text \<open>The two forms as wired in the page: \<open>form.handleSubmit(onSubmit)\<close>.\<close>

definition submit_login ::
  "(js_string \<Rightarrow> bool) \<Rightarrow> auth option \<Rightarrow> login_data \<Rightarrow> auth_form \<Rightarrow> auth_form" where
  "submit_login is_email au = handleSubmit (loginSchema is_email) setErrors (onLoginSubmit au)"

definition submit_signup ::
  "(js_string \<Rightarrow> bool) \<Rightarrow> auth option \<Rightarrow> firestore option \<Rightarrow> signup_data \<Rightarrow> auth_form \<Rightarrow> auth_form" where
  "submit_signup is_email au fs =
     handleSubmit (signupSchema is_email) setErrors (onSignupSubmit au fs)"

definition creation_calls :: "auth_form \<Rightarrow> auth_call list" where
  "creation_calls s = filter is_create (auth_calls s)"

section \<open>Banner administration\<close>

subsection \<open>Banner records and the list query\<close>

text \<open>
  Modelled from the spec: the \<open>Banner\<close> type of the application's type module, which is
  not part of the sources: "{ id, title, subtitle?, imageUrl, ctaLabel?, ctaLink?,
  isActive: bool, sortOrder: int, createdAt, updatedAt }". A timestamp is its position on
  the server's time line.
\<close>

record banner =
  banner_id :: js_string
  title :: js_string
  subtitle :: "js_string option"
  imageUrl :: js_string
  ctaLabel :: "js_string option"
  ctaLink :: "js_string option"
  isActive :: bool
  sortOrder :: int
  createdAt :: int
  updatedAt :: int

datatype direction = Asc | Desc

type_synonym order_by = "string \<times> direction"
type_synonym query = "string \<times> order_by list"

text \<open>\<open>query(collection(firestore, 'banners'), orderBy('sortOrder'), orderBy('createdAt', 'desc'))\<close>\<close>

definition bannersQuery :: "firestore option \<Rightarrow> query option" where
  "bannersQuery fs =
     (case fs of
        None \<Rightarrow> None
      | Some _ \<Rightarrow> Some (''banners'', [(''sortOrder'', Asc), (''createdAt'', Desc)]))"

definition order_key :: "string \<Rightarrow> banner \<Rightarrow> int" where
  "order_key f b =
     (if f = ''sortOrder'' then banner.sortOrder b
      else if f = ''createdAt'' then createdAt b
      else if f = ''updatedAt'' then updatedAt b
      else 0)"

text \<open>
  Modelled from the spec: the store's query execution and the \<open>useCollection\<close> hook are
  not part of the sources. "subscribe-to-query(collection, ordering) -> live ordered
  stream": the documents come ordered by the first clause, a later clause deciding among
  documents equal on the earlier ones; "while the initial snapshot is pending" nothing
  is delivered and the hook reports loading; "the UI always renders the latest snapshot".
\<close>

fun precedes :: "order_by list \<Rightarrow> banner \<Rightarrow> banner \<Rightarrow> bool" where
  "precedes [] a b = True"
| "precedes ((f, dir) # cs) a b =
     (if order_key f a = order_key f b then precedes cs a b
      else (case dir of
              Asc \<Rightarrow> order_key f a < order_key f b
            | Desc \<Rightarrow> order_key f b < order_key f a))"

fun insert_by :: "('a \<Rightarrow> 'a \<Rightarrow> bool) \<Rightarrow> 'a \<Rightarrow> 'a list \<Rightarrow> 'a list" where
  "insert_by le x [] = [x]"
| "insert_by le x (y # ys) = (if le x y then x # y # ys else y # insert_by le x ys)"

definition sort_by :: "('a \<Rightarrow> 'a \<Rightarrow> bool) \<Rightarrow> 'a list \<Rightarrow> 'a list" where
  "sort_by le xs = foldr (insert_by le) xs []"

datatype collection_result = CollectionResult (data: "banner list option") (isLoading: bool)

definition useCollection :: "query option \<Rightarrow> banner list option \<Rightarrow> collection_result" where
  \<comment> \<open>the second argument is the collection as stored, \<open>None\<close> while the first snapshot is pending\<close>
  "useCollection q stored =
     (case q of
        None \<Rightarrow> CollectionResult None False
      | Some (coll, clauses) \<Rightarrow>
          (case stored of
             None \<Rightarrow> CollectionResult None True
           | Some bs \<Rightarrow> CollectionResult (Some (sort_by (precedes clauses) bs)) False))"

datatype table_row = SkeletonRow nat | BannerRow banner | EmptyRow

definition BannersPage :: "firestore option \<Rightarrow> banner list option \<Rightarrow> table_row list" where
  "BannersPage fs stored =
     (let r = useCollection (bannersQuery fs) stored in
        (if isLoading r then map SkeletonRow [0..<3] else [])
      @ (case data r of None \<Rightarrow> [] | Some banners \<Rightarrow> map BannerRow banners)
      @ (if \<not> isLoading r \<and> (case data r of None \<Rightarrow> False | Some banners \<Rightarrow> length banners = 0)
         then [EmptyRow] else []))"

fun rendered_banners :: "table_row list \<Rightarrow> banner list" where
  "rendered_banners [] = []"
| "rendered_banners (BannerRow b # rs) = b # rendered_banners rs"
| "rendered_banners (_ # rs) = rendered_banners rs"

text \<open>
  The order of the spec, in its words: ascending \<open>sortOrder\<close>, ties broken by descending
  \<open>createdAt\<close>.
\<close>

definition display_order :: "banner \<Rightarrow> banner \<Rightarrow> bool" where
  "display_order a b =
     (banner.sortOrder a < banner.sortOrder b
      \<or> (banner.sortOrder a = banner.sortOrder b \<and> createdAt b \<le> createdAt a))"

subsection \<open>The banner schema\<close>

record banner_form_data =
  title :: js_string
  subtitle :: "js_string option"
  imageUrl :: js_string
  ctaLabel :: "js_string option"
  ctaLink :: "js_string option"
  isActive :: bool
  sortOrder :: js_number

text \<open>Reading a property: \<open>undefined\<close> when the key is missing.\<close>

definition get_prop :: "js_object \<Rightarrow> string \<Rightarrow> js_value" where
  "get_prop ob k = (case ob k of None \<Rightarrow> JUndefined | Some v \<Rightarrow> v)"

fun type_name :: "js_value \<Rightarrow> string" where
  "type_name JUndefined = ''undefined''"
| "type_name JNull = ''null''"
| "type_name (JBool _) = ''boolean''"
| "type_name (JNum NaN) = ''nan''"
| "type_name (JNum _) = ''number''"
| "type_name (JStr _) = ''string''"
| "type_name JServerTimestamp = ''object''"
| "type_name (JArr _) = ''array''"
| "type_name (JObj _) = ''object''"

definition invalid_type :: "string list \<Rightarrow> string \<Rightarrow> js_value \<Rightarrow> issue" where
  "invalid_type p expected v =
     Issue p (if v = JUndefined then ''Required''
              else ''Expected '' @ expected @ '', received '' @ type_name v)"

text \<open>
  The fields of \<open>bannerSchema\<close>, one parser each. What counts as a well-formed URL is the
  validation library's, and the conversion of \<open>z.coerce.number()\<close> is the runtime's
  \<open>Number(...)\<close>; both are parameters.
\<close>

definition parse_title :: "js_value \<Rightarrow> issue list + js_string" where
  \<comment> \<open>\<open>z.string().min(1, 'Title is required')\<close>\<close>
  "parse_title v =
     (case v of
        JStr s \<Rightarrow> if length s < 1 then Inl [Issue [''title''] ''Title is required''] else Inr s
      | _ \<Rightarrow> Inl [invalid_type [''title''] ''string'' v])"

definition parse_optional_string :: "string \<Rightarrow> js_value \<Rightarrow> issue list + js_string option" where
  \<comment> \<open>\<open>z.string().optional()\<close>\<close>
  "parse_optional_string k v =
     (case v of
        JUndefined \<Rightarrow> Inr None
      | JStr s \<Rightarrow> Inr (Some s)
      | _ \<Rightarrow> Inl [invalid_type [k] ''string'' v])"

definition parse_imageUrl :: "(js_string \<Rightarrow> bool) \<Rightarrow> js_value \<Rightarrow> issue list + js_string" where
  \<comment> \<open>\<open>z.string().url('Must be a valid URL')\<close>\<close>
  "parse_imageUrl is_url v =
     (case v of
        JStr s \<Rightarrow> if is_url s then Inr s else Inl [Issue [''imageUrl''] ''Must be a valid URL'']
      | _ \<Rightarrow> Inl [invalid_type [''imageUrl''] ''string'' v])"

definition parse_isActive :: "js_value \<Rightarrow> issue list + bool" where
  \<comment> \<open>\<open>z.boolean().default(true)\<close>\<close>
  "parse_isActive v =
     (case v of
        JUndefined \<Rightarrow> Inr True
      | JBool b \<Rightarrow> Inr b
      | _ \<Rightarrow> Inl [invalid_type [''isActive''] ''boolean'' v])"

definition parse_sortOrder :: "(js_value \<Rightarrow> js_number) \<Rightarrow> js_value \<Rightarrow> issue list + js_number" where
  \<comment> \<open>\<open>z.coerce.number().int().default(0)\<close>\<close>
  "parse_sortOrder to_number v =
     (if v = JUndefined then Inr (Finite 0)
      else (let n = to_number v in
            if n = NaN then Inl [invalid_type [''sortOrder''] ''number'' (JNum NaN)]
            else if \<not> isInteger n then Inl [Issue [''sortOrder''] ''Expected integer, received float'']
            else Inr n))"

definition issues_of :: "issue list + 'a \<Rightarrow> issue list" where
  "issues_of r = (case r of Inl is \<Rightarrow> is | Inr _ \<Rightarrow> [])"

definition bannerSchema ::
  "(js_string \<Rightarrow> bool) \<Rightarrow> (js_value \<Rightarrow> js_number) \<Rightarrow> js_object \<Rightarrow> issue list + banner_form_data" where
  "bannerSchema is_url to_number raw =
     (let t = parse_title (get_prop raw ''title'');
          st = parse_optional_string ''subtitle'' (get_prop raw ''subtitle'');
          iu = parse_imageUrl is_url (get_prop raw ''imageUrl'');
          cl = parse_optional_string ''ctaLabel'' (get_prop raw ''ctaLabel'');
          ck = parse_optional_string ''ctaLink'' (get_prop raw ''ctaLink'');
          ia = parse_isActive (get_prop raw ''isActive'');
          so = parse_sortOrder to_number (get_prop raw ''sortOrder'')
      in case (t, st, iu, cl, ck, ia, so) of
           (Inr a, Inr b, Inr c, Inr d, Inr e, Inr f, Inr g) \<Rightarrow>
             Inr \<lparr>title = a, subtitle = b, imageUrl = c, ctaLabel = d, ctaLink = e,
                  isActive = f, sortOrder = g\<rparr>
         | _ \<Rightarrow>
             Inl (issues_of t @ issues_of st @ issues_of iu @ issues_of cl @ issues_of ck
                  @ issues_of ia @ issues_of so))"

subsection \<open>BannerForm\<close>

text \<open>
  \<open>{...data}\<close>: the keys of the parsed form data, in the order of the schema; an optional
  key left out is absent.
\<close>

definition optional_field :: "string \<Rightarrow> js_string option \<Rightarrow> js_fields" where
  "optional_field k v = (case v of None \<Rightarrow> [] | Some s \<Rightarrow> [(k, JStr s)])"

definition formFields :: "banner_form_data \<Rightarrow> js_fields" where
  "formFields d =
     [(''title'', JStr (title d))]
     @ optional_field ''subtitle'' (subtitle d)
     @ [(''imageUrl'', JStr (imageUrl d))]
     @ optional_field ''ctaLabel'' (ctaLabel d)
     @ optional_field ''ctaLink'' (ctaLink d)
     @ [(''isActive'', JBool (isActive d)), (''sortOrder'', JNum (sortOrder d))]"

definition editFields :: "banner_form_data \<Rightarrow> js_fields" where
  \<comment> \<open>\<open>{ ...data, updatedAt: serverTimestamp() }\<close>\<close>
  "editFields d = object (formFields d @ [(''updatedAt'', JServerTimestamp)])"

definition createFields :: "banner_form_data \<Rightarrow> js_fields" where
  \<comment> \<open>\<open>{ ...data, createdAt: serverTimestamp(), updatedAt: serverTimestamp() }\<close>\<close>
  "createFields d =
     object (formFields d
             @ [(''createdAt'', JServerTimestamp), (''updatedAt'', JServerTimestamp)])"

text \<open>
  The state a submission touches: the parent's \<open>open\<close> flag of the dialog, the form's
  \<open>loading\<close> flag, its field errors and the notifications. \<open>onFinished\<close> is
  \<open>() => setOpen(false)\<close> at both places the form is mounted; \<open>finished\<close> counts its
  invocations.
\<close>

record banner_dialog =
  dialog_open :: bool
  form_loading :: bool
  form_toasts :: "toast list"
  form_errors :: "issue list"
  finished :: nat

definition onFinished :: "banner_dialog \<Rightarrow> banner_dialog" where
  "onFinished s = s\<lparr>dialog_open := False, finished := Suc (finished s)\<rparr>"

definition notify :: "toast \<Rightarrow> banner_dialog \<Rightarrow> banner_dialog" where
  "notify t s = s\<lparr>form_toasts := form_toasts s @ [t]\<rparr>"

text \<open>The write of the \<open>try\<close> block and the notification of its success.\<close>

definition banner_write ::
  "banner option \<Rightarrow> js_string \<Rightarrow> banner_form_data \<Rightarrow> database \<Rightarrow> js_error + database" where
  "banner_write target new_id d db =
     (case target of
        Some b \<Rightarrow> updateDoc db (''banners'', banner_id b) (editFields d)
      | None \<Rightarrow> addDoc db ''banners'' new_id (createFields d))"

definition saved_toast :: "banner option \<Rightarrow> toast" where
  "saved_toast target =
     (case target of
        Some _ \<Rightarrow> Toast None ''Banner updated successfully'' None
      | None \<Rightarrow> Toast None ''Banner added successfully'' None)"

definition onSubmit ::
  "firestore option \<Rightarrow> banner option \<Rightarrow> js_string \<Rightarrow> banner_form_data
     \<Rightarrow> database \<times> banner_dialog \<Rightarrow> database \<times> banner_dialog" where
  "onSubmit fs target new_id d st =
     (case st of (db, s0) \<Rightarrow>
        (case fs of
           None \<Rightarrow> (db, s0)
         | Some _ \<Rightarrow>
             (let s1 = s0\<lparr>form_loading := True\<rparr> in
              case banner_write target new_id d db of
                Inr db' \<Rightarrow>
                  (db', (onFinished (notify (saved_toast target) s1))\<lparr>form_loading := False\<rparr>)
              | Inl err \<Rightarrow>
                  (db, (notify (Toast (Some ''destructive'') ''Error saving banner''
                                  (Some (err_message err))) s1)\<lparr>form_loading := False\<rparr>))))"

text \<open>
  The form as wired: \<open>handleSubmit(onSubmit)\<close> with the resolver of \<open>bannerSchema\<close>. The raw
  values of an edit form start from the banner record, so they may hold keys the schema
  does not know (\<open>id\<close>, \<open>createdAt\<close>, \<open>updatedAt\<close>); the handler receives the parsed data.
\<close>

definition set_form_errors :: "issue list \<Rightarrow> database \<times> banner_dialog \<Rightarrow> database \<times> banner_dialog" where
  "set_form_errors is st = (case st of (db, s) \<Rightarrow> (db, s\<lparr>form_errors := is\<rparr>))"

definition submit_banner ::
  "(js_string \<Rightarrow> bool) \<Rightarrow> (js_value \<Rightarrow> js_number) \<Rightarrow> firestore option \<Rightarrow> banner option
     \<Rightarrow> js_string \<Rightarrow> js_object \<Rightarrow> database \<times> banner_dialog \<Rightarrow> database \<times> banner_dialog" where
  "submit_banner is_url to_number fs target new_id =
     handleSubmit (bannerSchema is_url to_number) set_form_errors (onSubmit fs target new_id)"

definition written_by_edit :: "string set" where
  "written_by_edit =
     insert ''updatedAt''
       {''title'', ''subtitle'', ''imageUrl'', ''ctaLabel'', ''ctaLink'', ''isActive'',
        ''sortOrder''}"

definition field_at :: "database \<Rightarrow> doc_ref \<Rightarrow> string \<Rightarrow> js_value option" where
  "field_at db r k = (case docs db r of None \<Rightarrow> None | Some d \<Rightarrow> d k)"

section \<open>Suggestion flow\<close>

subsection \<open>Input and prompt template\<close>

datatype cart_item = CartItem (item_name: js_string) (item_description: js_string)

record suggest_input =
  cartItems :: "cart_item list option"
  requirements :: "js_string option"

text \<open>
  The values a template sees. The input schema admits strings, a list of objects and
  absent keys, nothing else.
\<close>

datatype hb_value =
    HUndefined
  | HStr js_string
  | HList "hb_value list"
  | HObj "(string \<times> hb_value) list"

definition item_context :: "cart_item \<Rightarrow> hb_value" where
  "item_context c = HObj [(''name'', HStr (item_name c)), (''description'', HStr (item_description c))]"

definition input_context :: "suggest_input \<Rightarrow> hb_value" where
  "input_context i =
     HObj ((case cartItems i of None \<Rightarrow> [] | Some cs \<Rightarrow> [(''cartItems'', HList (map item_context cs))])
         @ (case requirements i of None \<Rightarrow> [] | Some r \<Rightarrow> [(''requirements'', HStr r)]))"

fun hb_lookup :: "hb_value \<Rightarrow> string \<Rightarrow> hb_value" where
  "hb_lookup (HObj kvs) k = (case map_of kvs k of None \<Rightarrow> HUndefined | Some v \<Rightarrow> v)"
| "hb_lookup _ k = HUndefined"

text \<open>
  The template language: \<open>{{#if}}\<close> takes its \<open>{{else}}\<close> branch on an absent value, an empty
  string and an empty list; \<open>{{#each}}\<close> renders its body once per element, with the
  element as context; \<open>{{x}}\<close> inserts the value unescaped, an absent one as nothing.
\<close>

fun hb_empty :: "hb_value \<Rightarrow> bool" where
  "hb_empty HUndefined = True"
| "hb_empty (HStr s) = (s = [])"
| "hb_empty (HList xs) = (xs = [])"
| "hb_empty (HObj _) = False"

fun join_comma :: "js_string list \<Rightarrow> js_string" where
  "join_comma [] = []"
| "join_comma [s] = s"
| "join_comma (s # t # ss) = s @ js '','' @ join_comma (t # ss)"

fun hb_string :: "hb_value \<Rightarrow> js_string" where
  "hb_string HUndefined = []"
| "hb_string (HStr s) = s"
| "hb_string (HList xs) = join_comma (map hb_string xs)"
| "hb_string (HObj _) = js ''[object Object]''"

datatype template =
    Text string
  | Var string
  | If string "template list" "template list"
  | Each string "template list"

fun render :: "hb_value \<Rightarrow> template \<Rightarrow> js_string" where
  "render ctx (Text t) = js t"
| "render ctx (Var k) = hb_string (hb_lookup ctx k)"
| "render ctx (If k yes no) =
     (if hb_empty (hb_lookup ctx k) then concat (map (render ctx) no)
      else concat (map (render ctx) yes))"
| "render ctx (Each k body) =
     (case hb_lookup ctx k of
        HList xs \<Rightarrow> concat (map (\<lambda>x. concat (map (render x) body)) xs)
      | _ \<Rightarrow> [])"

definition line :: "string \<Rightarrow> string" where
  "line s = s @ [CHR 0x0A]"

text \<open>
  The template of \<open>prompt\<close>. A line that holds only a block tag (\<open>{{#if}}\<close>, \<open>{{#each}}\<close>,
  \<open>{{else}}\<close>, \<open>{{/each}}\<close>, \<open>{{/if}}\<close>) is dropped whole by the template language, so the
  text pieces are the remaining lines.
\<close>

definition prompt_head :: string where
  "prompt_head =
     line ''You are an AI assistant specializing in suggesting compatible products for an e-commerce platform.''
   @ line []
   @ line ''  Based on the items in the user's cart and/or their stated requirements, you will provide a list of product suggestions.''
   @ line []
   @ line ''  If the user has items in their cart, use the product names and descriptions to determine what other products might be compatible.''
   @ line ''  If the user has stated specific requirements, prioritize those requirements when making suggestions.''
   @ line []
   @ line ''  Cart Items:''"

definition prompt_template :: "template list" where
  "prompt_template =
     [Text prompt_head,
      If ''cartItems''
        [Each ''cartItems''
           [Text ''      - '', Var ''name'', Text '': '', Var ''description'', Text (line [])]]
        [Text (line ''    No items in cart.'')],
      Text (line [] @ ''  Requirements: ''),
      Var ''requirements'',
      Text (line [] @ line [] @ ''  Suggestions:'')]"

definition render_prompt :: "suggest_input \<Rightarrow> js_string" where
  "render_prompt i = concat (map (render (input_context i)) prompt_template)"

subsection \<open>The flow\<close>

text \<open>
  \<open>SuggestCompatibleProductsOutputSchema\<close>: an object whose \<open>suggestions\<close> is an array of
  strings; other keys are dropped.
\<close>

fun as_string :: "js_value \<Rightarrow> js_string option" where
  "as_string (JStr s) = Some s"
| "as_string _ = None"

fun all_strings :: "js_value list \<Rightarrow> js_string list option" where
  "all_strings [] = Some []"
| "all_strings (v # vs) =
     (case as_string v of
        None \<Rightarrow> None
      | Some s \<Rightarrow> (case all_strings vs of None \<Rightarrow> None | Some ss \<Rightarrow> Some (s # ss)))"

fun OutputSchema :: "js_value \<Rightarrow> js_string list option" where
  "OutputSchema (JObj kvs) =
     (case map_of kvs ''suggestions'' of
        Some (JArr vs) \<Rightarrow> all_strings vs
      | _ \<Rightarrow> None)"
| "OutputSchema _ = None"

datatype flow_error = RemoteError js_error | SchemaViolation

text \<open>
  The remote model is a function from the rendered prompt to a rejection or a structured
  output (\<open>null\<close> when it produced none). Every call is appended to the log of prompts
  sent, so that a retry would show.
\<close>

type_synonym remote_model = "js_string \<Rightarrow> js_error + js_value"

definition prompt ::
  "remote_model \<Rightarrow> suggest_input \<Rightarrow> js_string list \<Rightarrow> (js_error + js_value) \<times> js_string list" where
  "prompt model input sent = (model (render_prompt input), sent @ [render_prompt input])"

text \<open>
  Modelled from the spec: the flow runner of the model toolkit is not part of the sources.
  A flow declared with an output schema fails when its body fails ("propagated, not
  recovered") and when the value its body returns does not conform to "the declared
  output shape".
\<close>

definition defineFlow ::
  "(js_value \<Rightarrow> 'o option) \<Rightarrow> ('i \<Rightarrow> 'l \<Rightarrow> (js_error + js_value) \<times> 'l)
     \<Rightarrow> 'i \<Rightarrow> 'l \<Rightarrow> (flow_error + 'o) \<times> 'l" where
  "defineFlow outputSchema body input l =
     (case body input l of
        (Inl e, l') \<Rightarrow> (Inl (RemoteError e), l')
      | (Inr v, l') \<Rightarrow>
          (case outputSchema v of
             None \<Rightarrow> (Inl SchemaViolation, l')
           | Some out \<Rightarrow> (Inr out, l')))"

text \<open>
  The body of the flow: \<open>const {output} = await prompt(input); return output!;\<close>. The
  non-null assertion does nothing at run time, so an absent output is returned as it is.
\<close>

definition flow_body ::
  "remote_model \<Rightarrow> suggest_input \<Rightarrow> js_string list \<Rightarrow> (js_error + js_value) \<times> js_string list" where
  "flow_body model input sent = prompt model input sent"

definition suggestCompatibleProductsFlow ::
  "remote_model \<Rightarrow> suggest_input \<Rightarrow> js_string list
     \<Rightarrow> (flow_error + js_string list) \<times> js_string list" where
  "suggestCompatibleProductsFlow model = defineFlow OutputSchema (flow_body model)"

definition suggestCompatibleProducts ::
  "remote_model \<Rightarrow> suggest_input \<Rightarrow> js_string list
     \<Rightarrow> (flow_error + js_string list) \<times> js_string list" where
  "suggestCompatibleProducts model input sent = suggestCompatibleProductsFlow model input sent"

section \<open>Sample inputs\<close>

text \<open>
  Concrete values at which the definitions above are evaluated. \<open>contains_at\<close> and
  \<open>starts_https\<close> stand in for the library's email and URL checks at these inputs only.
\<close>

definition contains_at :: "js_string \<Rightarrow> bool" where
  "contains_at s = (0x40 \<in> set s)"

definition starts_https :: "js_string \<Rightarrow> bool" where
  "starts_https s = (take 8 s = js ''https://'')"

text \<open>
  \<open>number_of\<close> stands in for the runtime's \<open>Number(...)\<close>. A string is trimmed of white
  space and read as the empty string (0), a signed \<open>Infinity\<close>, a signed decimal literal
  with optional fraction and exponent, or an unsigned hexadecimal, octal or binary
  integer; anything else is not a number. The value is the exact value of the literal:
  the runtime rounds it to the nearest double, which is the same number for every literal
  a double represents exactly, among them the integers below \<open>2^53\<close>.
\<close>

definition is_space :: "code_unit \<Rightarrow> bool" where
  "is_space u =
     (u \<in> set [0x09, 0x0A, 0x0B, 0x0C, 0x0D, 0x20, 0xA0, 0x1680, 0x2028, 0x2029, 0x202F,
                0x205F, 0x3000, 0xFEFF]
      \<or> (0x2000 \<le> u \<and> u \<le> 0x200A))"

definition trim :: "js_string \<Rightarrow> js_string" where
  "trim s = rev (dropWhile is_space (rev (dropWhile is_space s)))"

definition digit_of :: "nat \<Rightarrow> code_unit \<Rightarrow> nat option" where
  "digit_of base u =
     (let n = unat u;
          v = (if 48 \<le> n \<and> n \<le> 57 then Some (n - 48)
               else if 97 \<le> n \<and> n \<le> 122 then Some (n - 87)
               else if 65 \<le> n \<and> n \<le> 90 then Some (n - 55)
               else None)
      in case v of None \<Rightarrow> None | Some x \<Rightarrow> if x < base then Some x else None)"

fun digits_in :: "nat \<Rightarrow> js_string \<Rightarrow> nat \<Rightarrow> nat option" where
  "digits_in base [] acc = Some acc"
| "digits_in base (u # us) acc =
     (case digit_of base u of
        None \<Rightarrow> None
      | Some x \<Rightarrow> digits_in base us (acc * base + x))"

definition natural :: "nat \<Rightarrow> js_string \<Rightarrow> nat option" where
  "natural base s = (if s = [] then None else digits_in base s 0)"

definition signed_integer :: "js_string \<Rightarrow> int option" where
  "signed_integer s =
     (case s of
        [] \<Rightarrow> None
      | u # us \<Rightarrow>
          if u = 0x2B then map_option int (natural 10 us)
          else if u = 0x2D then map_option (\<lambda>n. - int n) (natural 10 us)
          else map_option int (natural 10 s))"

definition scale :: "rat \<Rightarrow> int \<Rightarrow> rat" where
  "scale q e = (if 0 \<le> e then q * 10 ^ nat e else q / 10 ^ nat (- e))"

definition is_exp :: "code_unit \<Rightarrow> bool" where
  "is_exp u = (u = 0x65 \<or> u = 0x45)"

definition unsigned_decimal :: "js_string \<Rightarrow> rat option" where
  "unsigned_decimal s =
     (let mant = takeWhile (\<lambda>u. \<not> is_exp u) s;
          rest = dropWhile (\<lambda>u. \<not> is_exp u) s;
          ip = takeWhile (\<lambda>u. u \<noteq> 0x2E) mant;
          r = dropWhile (\<lambda>u. u \<noteq> 0x2E) mant;
          fp = (if r = [] then [] else tl r)
      in if ip = [] \<and> fp = [] then None
         else (case (digits_in 10 ip 0, digits_in 10 fp 0,
                     if rest = [] then Some 0 else signed_integer (tl rest)) of
                 (Some i, Some f, Some e) \<Rightarrow>
                   Some (scale (of_nat i + of_nat f / 10 ^ length fp) e)
               | _ \<Rightarrow> None))"

definition finite_or_nan :: "rat option \<Rightarrow> js_number" where
  "finite_or_nan q = (case q of None \<Rightarrow> NaN | Some x \<Rightarrow> Finite x)"

definition string_to_number :: "js_string \<Rightarrow> js_number" where
  "string_to_number s =
     (let t = trim s in
      if t = [] then Finite 0
      else if t = js ''Infinity'' \<or> t = js ''+Infinity'' then PosInf
      else if t = js ''-Infinity'' then NegInf
      else if take 2 t = js ''0x'' \<or> take 2 t = js ''0X''
        then finite_or_nan (map_option of_nat (natural 16 (drop 2 t)))
      else if take 2 t = js ''0o'' \<or> take 2 t = js ''0O''
        then finite_or_nan (map_option of_nat (natural 8 (drop 2 t)))
      else if take 2 t = js ''0b'' \<or> take 2 t = js ''0B''
        then finite_or_nan (map_option of_nat (natural 2 (drop 2 t)))
      else if hd t = 0x2B then finite_or_nan (unsigned_decimal (tl t))
      else if hd t = 0x2D then finite_or_nan (map_option uminus (unsigned_decimal (tl t)))
      else finite_or_nan (unsigned_decimal t))"

fun number_of :: "js_value \<Rightarrow> js_number" where
  "number_of (JNum n) = n"
| "number_of JNull = Finite 0"
| "number_of (JBool b) = Finite (if b then 1 else 0)"
| "number_of (JStr s) = string_to_number s"
| "number_of (JArr []) = Finite 0"
| "number_of (JArr [JStr s]) = string_to_number s"
| "number_of (JArr [JNum n]) = n"
| "number_of (JArr [JNull]) = Finite 0"
| "number_of (JArr [JUndefined]) = Finite 0"
| "number_of (JArr [JArr vs]) = number_of (JArr vs)"
| "number_of _ = NaN"

definition unavailable :: js_error where
  "unavailable = Error (Some (js ''unavailable'')) (js ''The service is currently unavailable.'')"

definition wrong_password :: js_error where
  "wrong_password =
     Error (Some (js ''auth/wrong-password'')) (js ''Firebase: Error (auth/wrong-password).'')"

definition no_faults :: database where
  "no_faults =
     \<lparr>docs = Map.empty, read_fault = None, write_fault = None,
      update_missing = Error (Some (js ''not-found'')) (js ''No document to update''),
      invalid_data =
        Error (Some (js ''invalid-argument'')) (js ''Unsupported field value: undefined'')\<rparr>"

definition sample_user :: fb_user where
  "sample_user =
     \<lparr>uid = js ''u1'', user_email = Some (js ''user@example.com''),
      displayName = None, phoneNumber = None\<rparr>"

definition named_user :: fb_user where
  "named_user = sample_user\<lparr>displayName := Some (js ''Asha Rao'')\<rparr>"

definition with_admin_profile :: database where
  "with_admin_profile =
     no_faults\<lparr>docs := [(''users'', js ''u1'') \<mapsto> [''role'' \<mapsto> JStr (js ''admin'')]]\<rparr>"

definition sample_auth :: auth where
  "sample_auth =
     \<lparr>signInWithEmailAndPassword = (\<lambda>e p. Inl wrong_password),
      createUserWithEmailAndPassword = (\<lambda>e p. Inr sample_user)\<rparr>"

definition idle :: auth_form where
  "idle =
     \<lparr>loading = False, toasts = [], pushed = [], field_errors = [], auth_calls = [],
      remote = no_faults\<rparr>"

definition sample_login :: login_data where
  "sample_login =
     \<lparr>login_email = js ''user@example.com'', login_password = js ''wrongpass'',
      rememberMe = False\<rparr>"

definition letters_signup :: signup_data where
  "letters_signup =
     \<lparr>name = js ''Asha Rao'', email = js ''user@example.com'', phone = js ''abcdefghij'',
      password = js ''secret1'', confirmPassword = js ''secret1'', agreeToTerms = True\<rparr>"

definition careless_signup :: signup_data where
  "careless_signup =
     \<lparr>name = js ''Asha Rao'', email = js ''user@example.com'', phone = js ''12345'',
      password = js ''secret1'', confirmPassword = js ''secret2'', agreeToTerms = False\<rparr>"

text \<open>The words of the spec for the phone rule: at least ten characters, all of them digits.\<close>

definition is_digit :: "code_unit \<Rightarrow> bool" where
  "is_digit u = (0x30 \<le> u \<and> u \<le> 0x39)"

definition at_least_10_digits :: "js_string \<Rightarrow> bool" where
  "at_least_10_digits p = (list_all is_digit p \<and> 10 \<le> length p)"

text \<open>
  Values of the banner form: with the sort order as the number of the spec's scenario, as
  the text an input element holds, as a fraction, and left out.
\<close>

definition sale_raw :: js_object where
  "sale_raw =
     [''title'' \<mapsto> JStr (js ''Sale''), ''imageUrl'' \<mapsto> JStr (js ''https://x.com/a.png''),
      ''sortOrder'' \<mapsto> JNum (Finite 1)]"

definition typed_raw :: js_object where
  "typed_raw = sale_raw(''sortOrder'' \<mapsto> JStr (js ''5''), ''subtitle'' \<mapsto> JStr (js ''Today''))"

definition fraction_raw :: js_object where
  "fraction_raw = sale_raw(''sortOrder'' \<mapsto> JStr (js ''1.5''))"

definition unordered_raw :: js_object where
  "unordered_raw =
     [''title'' \<mapsto> JStr (js ''Sale''), ''imageUrl'' \<mapsto> JStr (js ''https://x.com/a.png'')]"

definition sale_data :: banner_form_data where
  "sale_data =
     \<lparr>title = js ''Sale'', subtitle = None, imageUrl = js ''https://x.com/a.png'',
      ctaLabel = None, ctaLink = None, isActive = True, sortOrder = Finite 1\<rparr>"

definition sale_banner :: banner where
  "sale_banner =
     \<lparr>banner_id = js ''b1'', banner.title = js ''Sale'', banner.subtitle = None,
      banner.imageUrl = js ''https://x.com/a.png'', banner.ctaLabel = None,
      banner.ctaLink = None, banner.isActive = True, banner.sortOrder = 1,
      createdAt = 100, updatedAt = 100\<rparr>"

definition with_sale_banner :: database where
  "with_sale_banner =
     no_faults\<lparr>docs := [(''banners'', js ''b1'') \<mapsto>
        [''title'' \<mapsto> JStr (js ''Old''), ''ctaLabel'' \<mapsto> JStr (js ''Shop''),
         ''createdAt'' \<mapsto> JNum (Finite 100)]]\<rparr>"

definition edit_raw :: js_object where
  "edit_raw =
     sale_raw(''id'' \<mapsto> JStr (js ''b1''), ''createdAt'' \<mapsto> JNum (Finite 100),
              ''updatedAt'' \<mapsto> JNum (Finite 100))"

definition offline :: database where
  "offline = no_faults\<lparr>write_fault := Some unavailable\<rparr>"

definition dialog_shown :: banner_dialog where
  "dialog_shown =
     \<lparr>dialog_open = True, form_loading = False, form_toasts = [], form_errors = [],
      finished = 0\<rparr>"

definition empty_request :: suggest_input where
  "empty_request = \<lparr>cartItems = Some [], requirements = Some (js [])\<rparr>"

definition rejecting_model :: remote_model where
  "rejecting_model p = Inl unavailable"

definition silent_model :: remote_model where
  "silent_model p = Inr JNull"

section \<open>Account flow: properties\<close>

lemmas ui_defs = setLoading_def emit_def router_push_def setErrors_def called_def

lemma set_fails: "set (fails b p m) = (if b then {Issue p m} else {})"
  by (simp add: fails_def)

lemma signupSchema_Inl:
  "signupSchema_issues is_email d \<noteq> [] \<Longrightarrow>
     signupSchema is_email d = Inl (signupSchema_issues is_email d)"
  by (simp add: signupSchema_def split: list.splits)

lemma signupSchema_Inr:
  "signupSchema_issues is_email d = [] \<Longrightarrow> signupSchema is_email d = Inr d"
  by (simp add: signupSchema_def)

lemma submit_signup_invalid:
  "signupSchema_issues is_email d \<noteq> [] \<Longrightarrow>
     submit_signup is_email au fs d s = s\<lparr>field_errors := signupSchema_issues is_email d\<rparr>"
  by (simp add: submit_signup_def handleSubmit_def signupSchema_Inl setErrors_def)

lemma careless_issues:
  "signupSchema_issues contains_at careless_signup =
     [Issue [''phone''] ''Enter a valid 10-digit phone number.'',
      Issue [''agreeToTerms''] ''You must accept the terms and conditions.'',
      Issue [''confirmPassword''] ''Passwords don't match.'']"
  by (simp add: signupSchema_issues_def fails_def careless_signup_def contains_at_def js_def)

text \<open>
  C1, as the code has it. When a profile document for the uid exists, \<open>handleUserDoc\<close>
  writes nothing: it returns the database it was given, or the error of a rejected read.
  With no store handle it returns at once, reading and writing nothing. When no document
  exists, the handle is present and the store accepts the read and the write, it creates
  the document with role \<open>customer\<close> at both of its call sites: for a sign-up, which passes
  the name and the phone number of the form, and for a federated sign-in, which passes
  nothing, when the user has a display name.
\<close>

theorem handleUserDoc_write_once:
  "(docs d (''users'', uid user) \<noteq> None \<longrightarrow>
      (case handleUserDoc fs d user ad of
         Inr d' \<Rightarrow> d' = d
       | Inl e \<Rightarrow> fs \<noteq> None \<and> read_fault d = Some e))
   \<and> handleUserDoc None d user ad = Inr d
   \<and> (read_fault d = None \<and> write_fault d = None \<and> docs d (''users'', uid user) = None \<longrightarrow>
      handleUserDoc (Some h) d user (Some [(''name'', JStr n), (''phone'', JStr p)])
        = Inr (d\<lparr>docs := (docs d)((''users'', uid user) \<mapsto>
                 map_of [(''uid'', JStr (uid user)),
                         (''email'', nullable (user_email user)),
                         (''name'', JStr n),
                         (''phone'', JStr p),
                         (''role'', JStr (js ''customer'')),
                         (''createdAt'', JServerTimestamp)])\<rparr>))
   \<and> (read_fault d = None \<and> write_fault d = None \<and> docs d (''users'', uid user) = None
        \<and> displayName user = Some dn \<and> dn \<noteq> [] \<longrightarrow>
      handleUserDoc (Some h) d user None
        = Inr (d\<lparr>docs := (docs d)((''users'', uid user) \<mapsto>
                 map_of [(''uid'', JStr (uid user)),
                         (''email'', nullable (user_email user)),
                         (''name'', JStr dn),
                         (''phone'', JStr (case phoneNumber user of None \<Rightarrow> [] | Some ph \<Rightarrow> ph)),
                         (''role'', JStr (js ''customer'')),
                         (''createdAt'', JServerTimestamp)])\<rparr>))"
proof (intro conjI impI)
  assume "docs d (''users'', uid user) \<noteq> None"
  then show "case handleUserDoc fs d user ad of
               Inr d' \<Rightarrow> d' = d
             | Inl e \<Rightarrow> fs \<noteq> None \<and> read_fault d = Some e"
    by (auto simp: handleUserDoc_def getDoc_def split: option.splits sum.splits)
next
  show "handleUserDoc None d user ad = Inr d"
    by (simp add: handleUserDoc_def)
next
  assume "read_fault d = None \<and> write_fault d = None \<and> docs d (''users'', uid user) = None"
  then show "handleUserDoc (Some h) d user (Some [(''name'', JStr n), (''phone'', JStr p)])
        = Inr (d\<lparr>docs := (docs d)((''users'', uid user) \<mapsto>
                 map_of [(''uid'', JStr (uid user)),
                         (''email'', nullable (user_email user)),
                         (''name'', JStr n),
                         (''phone'', JStr p),
                         (''role'', JStr (js ''customer'')),
                         (''createdAt'', JServerTimestamp)])\<rparr>)"
    by (cases "user_email user")
       (simp_all add: handleUserDoc_def getDoc_def setDoc_def userDocFields_def object_def
          valid_data_def nullable_def spread_def)
next
  assume a: "read_fault d = None \<and> write_fault d = None \<and> docs d (''users'', uid user) = None
        \<and> displayName user = Some dn \<and> dn \<noteq> []"
  have ph: "js_or (js_or (nullable (phoneNumber user)) JUndefined) (JStr (js ''''))
              = JStr (case phoneNumber user of None \<Rightarrow> [] | Some ph \<Rightarrow> ph)"
    by (cases "phoneNumber user") (simp_all add: js_or_def nullable_def js_def)
  have nm: "js_or (nullable (displayName user)) JUndefined = JStr dn"
    using a by (simp add: js_or_def nullable_def)
  have f: "userDocFields user None =
             [(''uid'', JStr (uid user)),
              (''email'', nullable (user_email user)),
              (''name'', JStr dn),
              (''phone'', JStr (case phoneNumber user of None \<Rightarrow> [] | Some ph \<Rightarrow> ph)),
              (''role'', JStr (js ''customer'')),
              (''createdAt'', JServerTimestamp)]"
    by (simp add: userDocFields_def object_def spread_def opt_get_def ph nm)
  have v: "valid_data (userDocFields user None)"
    unfolding f by (cases "user_email user") (simp_all add: valid_data_def nullable_def)
  from a v show "handleUserDoc (Some h) d user None
        = Inr (d\<lparr>docs := (docs d)((''users'', uid user) \<mapsto>
                 map_of [(''uid'', JStr (uid user)),
                         (''email'', nullable (user_email user)),
                         (''name'', JStr dn),
                         (''phone'', JStr (case phoneNumber user of None \<Rightarrow> [] | Some ph \<Rightarrow> ph)),
                         (''role'', JStr (js ''customer'')),
                         (''createdAt'', JServerTimestamp)])\<rparr>)"
    by (simp add: handleUserDoc_def getDoc_def setDoc_def f [symmetric])
qed

theorem handleUserDoc_write_once_witness:
  "docs with_admin_profile (''users'', uid sample_user) \<noteq> None
   \<and> handleUserDoc (Some Firestore) with_admin_profile sample_user None = Inr with_admin_profile
   \<and> docs no_faults (''users'', uid sample_user) = None
   \<and> field_at (projr (handleUserDoc (Some Firestore) no_faults sample_user
                         (Some [(''name'', JStr (js ''Asha Rao'')), (''phone'', JStr (js ''0123456789''))])))
        (''users'', js ''u1'') ''role'' = Some (JStr (js ''customer''))
   \<and> displayName named_user = Some (js ''Asha Rao'')
   \<and> field_at (projr (handleUserDoc (Some Firestore) no_faults named_user None))
        (''users'', js ''u1'') ''role'' = Some (JStr (js ''customer''))"
proof -
  have a: "docs with_admin_profile (''users'', uid sample_user) \<noteq> None"
    by (simp add: with_admin_profile_def sample_user_def js_def)
  have b: "read_fault no_faults = None \<and> write_fault no_faults = None
           \<and> docs no_faults (''users'', uid sample_user) = None"
    by (simp add: no_faults_def)
  have c: "read_fault no_faults = None \<and> write_fault no_faults = None
           \<and> docs no_faults (''users'', uid named_user) = None
           \<and> displayName named_user = Some (js ''Asha Rao'') \<and> js ''Asha Rao'' \<noteq> []"
    by (simp add: no_faults_def named_user_def js_def)
  have e: "handleUserDoc (Some Firestore) with_admin_profile sample_user None = Inr with_admin_profile"
    using handleUserDoc_write_once
            [where d = with_admin_profile and user = sample_user and fs = "Some Firestore"
               and ad = None] a
    by (cases "handleUserDoc (Some Firestore) with_admin_profile sample_user None")
       (simp_all add: with_admin_profile_def no_faults_def)
  from handleUserDoc_write_once
         [where d = no_faults and user = sample_user and h = Firestore
            and n = "js ''Asha Rao''" and p = "js ''0123456789''"] b
  have f: "field_at (projr (handleUserDoc (Some Firestore) no_faults sample_user
                         (Some [(''name'', JStr (js ''Asha Rao'')), (''phone'', JStr (js ''0123456789''))])))
        (''users'', js ''u1'') ''role'' = Some (JStr (js ''customer''))"
    by (simp add: field_at_def sample_user_def)
  from handleUserDoc_write_once
         [where d = no_faults and user = named_user and h = Firestore and dn = "js ''Asha Rao''"] c
  have g: "field_at (projr (handleUserDoc (Some Firestore) no_faults named_user None))
        (''users'', js ''u1'') ''role'' = Some (JStr (js ''customer''))"
    by (simp add: field_at_def named_user_def sample_user_def)
  from a b c e f g show ?thesis by simp
qed

text \<open>
  With no store handle the function returns at once: no document exists before the call
  and none after it. A federated sign-in of a user without a display name passes no
  additional data, the object to write holds \<open>name: undefined\<close>, and the store's client
  refuses it: the call fails and again no document is created.
\<close>

theorem handleUserDoc_not_created_counterexample:
  "docs no_faults (''users'', uid sample_user) = None
   \<and> handleUserDoc None no_faults sample_user None = Inr no_faults
   \<and> displayName sample_user = None
   \<and> handleUserDoc (Some Firestore) no_faults sample_user None = Inl (invalid_data no_faults)"
  by (simp add: handleUserDoc_def getDoc_def setDoc_def no_faults_def userDocFields_def
        object_def valid_data_def sample_user_def nullable_def js_or_def opt_get_def spread_def)

text \<open>
  The role written is a default of the object literal: a \<open>role\<close> key in \<open>additionalData\<close>,
  which no caller passes, would replace it.
\<close>

lemma userDocFields_role_is_default:
  "map_of (userDocFields named_user (Some [(''role'', JStr (js ''admin''))])) ''role''
     = Some (JStr (js ''admin''))"
  by (simp add: userDocFields_def object_def spread_def)

text \<open>
  C2. A sign-up whose password differs from its confirmation fails validation with the
  issue on \<open>confirmPassword\<close>, and one that does not accept the terms fails validation;
  in both cases the form only records the issues: no call to the identity provider is
  made.
\<close>

theorem signup_mismatch_or_terms_blocked:
  "(password d \<noteq> confirmPassword d \<longrightarrow>
      signupSchema is_email d = Inl (signupSchema_issues is_email d)
      \<and> Issue [''confirmPassword''] ''Passwords don't match.'' \<in> set (signupSchema_issues is_email d)
      \<and> submit_signup is_email au fs d s = s\<lparr>field_errors := signupSchema_issues is_email d\<rparr>
      \<and> creation_calls (submit_signup is_email au fs d s) = creation_calls s)
   \<and> (\<not> agreeToTerms d \<longrightarrow>
      signupSchema is_email d = Inl (signupSchema_issues is_email d)
      \<and> Issue [''agreeToTerms''] ''You must accept the terms and conditions.''
           \<in> set (signupSchema_issues is_email d)
      \<and> submit_signup is_email au fs d s = s\<lparr>field_errors := signupSchema_issues is_email d\<rparr>
      \<and> creation_calls (submit_signup is_email au fs d s) = creation_calls s)"
proof (intro conjI impI)
  assume "password d \<noteq> confirmPassword d"
  then show "Issue [''confirmPassword''] ''Passwords don't match.''
               \<in> set (signupSchema_issues is_email d)"
    by (simp add: signupSchema_issues_def set_fails)
  then have ne: "signupSchema_issues is_email d \<noteq> []" by auto
  show "signupSchema is_email d = Inl (signupSchema_issues is_email d)"
    by (rule signupSchema_Inl [OF ne])
  show "submit_signup is_email au fs d s = s\<lparr>field_errors := signupSchema_issues is_email d\<rparr>"
    by (rule submit_signup_invalid [OF ne])
  then show "creation_calls (submit_signup is_email au fs d s) = creation_calls s"
    by (simp add: creation_calls_def)
next
  assume "\<not> agreeToTerms d"
  then show "Issue [''agreeToTerms''] ''You must accept the terms and conditions.''
               \<in> set (signupSchema_issues is_email d)"
    by (simp add: signupSchema_issues_def set_fails)
  then have ne: "signupSchema_issues is_email d \<noteq> []" by auto
  show "signupSchema is_email d = Inl (signupSchema_issues is_email d)"
    by (rule signupSchema_Inl [OF ne])
  show "submit_signup is_email au fs d s = s\<lparr>field_errors := signupSchema_issues is_email d\<rparr>"
    by (rule submit_signup_invalid [OF ne])
  then show "creation_calls (submit_signup is_email au fs d s) = creation_calls s"
    by (simp add: creation_calls_def)
qed

theorem signup_mismatch_or_terms_blocked_witness:
  "password careless_signup \<noteq> confirmPassword careless_signup
   \<and> \<not> agreeToTerms careless_signup
   \<and> Issue [''confirmPassword''] ''Passwords don't match.''
        \<in> set (signupSchema_issues contains_at careless_signup)
   \<and> auth_calls (submit_signup contains_at (Some sample_auth) (Some Firestore) careless_signup idle) = []"
proof -
  have h: "password careless_signup \<noteq> confirmPassword careless_signup"
    and t: "\<not> agreeToTerms careless_signup"
    by (simp_all add: careless_signup_def js_def)
  from signup_mismatch_or_terms_blocked
         [of careless_signup contains_at "Some sample_auth" "Some Firestore" idle] h t
  have "Issue [''confirmPassword''] ''Passwords don't match.''
          \<in> set (signupSchema_issues contains_at careless_signup)"
    and "submit_signup contains_at (Some sample_auth) (Some Firestore) careless_signup idle
          = idle\<lparr>field_errors := signupSchema_issues contains_at careless_signup\<rparr>"
    by blast+
  with h t show ?thesis by (simp add: idle_def)
qed

text \<open>
  C4. Whatever error the sign-in is rejected with, the notification is the fixed one,
  titled "Login Failed" with description "Invalid email or password.", and nothing is
  pushed to the router.
\<close>

theorem login_failure_is_generic:
  assumes "signInWithEmailAndPassword a (login_email d) (login_password d) = Inl err"
  shows "toasts (onLoginSubmit (Some a) d s) =
           toasts s @ [Toast (Some ''destructive'') ''Login Failed''
                         (Some (js ''Invalid email or password.''))]
         \<and> pushed (onLoginSubmit (Some a) d s) = pushed s
         \<and> loading (onLoginSubmit (Some a) d s) = False"
  using assms by (simp add: onLoginSubmit_def ui_defs)

theorem login_failure_is_generic_witness:
  "signInWithEmailAndPassword sample_auth (login_email sample_login) (login_password sample_login)
     = Inl wrong_password
   \<and> toasts (onLoginSubmit (Some sample_auth) sample_login idle) =
       [Toast (Some ''destructive'') ''Login Failed'' (Some (js ''Invalid email or password.''))]
   \<and> pushed (onLoginSubmit (Some sample_auth) sample_login idle) = []"
proof -
  have h: "signInWithEmailAndPassword sample_auth (login_email sample_login)
             (login_password sample_login) = Inl wrong_password"
    by (simp add: sample_auth_def)
  from login_failure_is_generic [OF h, of idle] h show ?thesis
    by (simp add: idle_def)
qed

text \<open>
  C5, as the code has it. The schema raises an issue on \<open>phone\<close> exactly when the value
  has fewer than ten characters, whatever the characters are; such an input fails
  validation and no call to the identity provider is made.
\<close>

theorem signup_phone_min_length:
  "((\<exists>m. Issue [''phone''] m \<in> set (signupSchema_issues is_email d)) \<longleftrightarrow> length (phone d) < 10)
   \<and> (length (phone d) < 10 \<longrightarrow>
        signupSchema is_email d = Inl (signupSchema_issues is_email d)
        \<and> Issue [''phone''] ''Enter a valid 10-digit phone number.''
             \<in> set (signupSchema_issues is_email d)
        \<and> creation_calls (submit_signup is_email au fs d s) = creation_calls s)"
proof (intro conjI impI)
  show "(\<exists>m. Issue [''phone''] m \<in> set (signupSchema_issues is_email d)) \<longleftrightarrow> length (phone d) < 10"
    by (auto simp: signupSchema_issues_def set_fails split: if_splits)
next
  assume "length (phone d) < 10"
  then show "Issue [''phone''] ''Enter a valid 10-digit phone number.''
               \<in> set (signupSchema_issues is_email d)"
    by (simp add: signupSchema_issues_def set_fails)
  then have ne: "signupSchema_issues is_email d \<noteq> []" by auto
  show "signupSchema is_email d = Inl (signupSchema_issues is_email d)"
    by (rule signupSchema_Inl [OF ne])
  show "creation_calls (submit_signup is_email au fs d s) = creation_calls s"
    by (simp add: submit_signup_invalid [OF ne] creation_calls_def)
qed

theorem signup_phone_min_length_witness:
  "length (phone careless_signup) < 10
   \<and> Issue [''phone''] ''Enter a valid 10-digit phone number.''
        \<in> set (signupSchema_issues contains_at careless_signup)
   \<and> creation_calls (submit_signup contains_at (Some sample_auth) (Some Firestore) careless_signup idle)
       = []"
proof -
  have h: "length (phone careless_signup) < 10"
    by (simp add: careless_signup_def js_def)
  from signup_phone_min_length
         [of contains_at careless_signup "Some sample_auth" "Some Firestore" idle] h
  show ?thesis by (simp add: creation_calls_def idle_def)
qed

text \<open>
  Ten letters are not ten digits, yet the schema accepts them as a phone number and the
  account is requested from the identity provider.
\<close>

theorem signup_phone_letters_counterexample:
  "\<not> at_least_10_digits (phone letters_signup)
   \<and> signupSchema contains_at letters_signup = Inr letters_signup
   \<and> auth_calls (submit_signup contains_at (Some sample_auth) (Some Firestore) letters_signup idle)
       = [CreateUser (js ''user@example.com'') (js ''secret1'')]"
  by (simp add: at_least_10_digits_def is_digit_def letters_signup_def js_def
        signupSchema_def signupSchema_issues_def fails_def contains_at_def
        submit_signup_def handleSubmit_def onSignupSubmit_def ui_defs idle_def sample_auth_def
        Let_def split: sum.splits)

section \<open>Banner administration: properties\<close>

subsection \<open>Ordering of the list\<close>

lemma precedes_total: "precedes cs a b \<or> precedes cs b a"
  by (induction cs) (auto split: direction.splits)

lemma precedes_trans: "precedes cs a b \<Longrightarrow> precedes cs b c \<Longrightarrow> precedes cs a c"
proof (induction cs)
  case Nil
  then show ?case by simp
next
  case (Cons cl cs)
  obtain f dir where cl: "cl = (f, dir)" by (cases cl)
  from Cons show ?case
    unfolding cl by (cases dir) (auto split: if_splits)
qed

lemma set_insert_by: "set (insert_by le x xs) = insert x (set xs)"
  by (induction xs) auto

lemma mset_insert_by: "mset (insert_by le x xs) = add_mset x (mset xs)"
  by (induction xs) auto

lemma sorted_insert_by:
  assumes total: "\<And>a b. le a b \<or> le b a"
    and trans: "\<And>a b c. le a b \<Longrightarrow> le b c \<Longrightarrow> le a c"
  shows "sorted_wrt le xs \<Longrightarrow> sorted_wrt le (insert_by le x xs)"
proof (induction xs)
  case Nil
  then show ?case by simp
next
  case (Cons y ys)
  show ?case
  proof (cases "le x y")
    case True
    with Cons.prems trans show ?thesis by auto
  next
    case False
    with total have "le y x" by blast
    with Cons False show ?thesis by (auto simp: set_insert_by)
  qed
qed

lemma mset_sort_by: "mset (sort_by le xs) = mset xs"
  by (induction xs) (simp_all add: sort_by_def mset_insert_by)

lemma sorted_sort_by:
  assumes "\<And>a b. le a b \<or> le b a" and "\<And>a b c. le a b \<Longrightarrow> le b c \<Longrightarrow> le a c"
  shows "sorted_wrt le (sort_by le xs)"
proof (induction xs)
  case Nil
  then show ?case by (simp add: sort_by_def)
next
  case (Cons x xs)
  have "sort_by le (x # xs) = insert_by le x (sort_by le xs)" by (simp add: sort_by_def)
  with Cons sorted_insert_by [of le, OF assms] show ?case by simp
qed

lemma precedes_bannersQuery:
  "precedes [(''sortOrder'', Asc), (''createdAt'', Desc)] a b = display_order a b"
  by (auto simp: order_key_def display_order_def)

lemma rendered_banners_append:
  "rendered_banners (xs @ ys) = rendered_banners xs @ rendered_banners ys"
  by (induction xs rule: rendered_banners.induct) auto

lemma rendered_banners_rows: "rendered_banners (map BannerRow bs) = bs"
  by (induction bs) auto

lemma rendered_loaded:
  "rendered_banners (BannersPage (Some h) (Some stored))
     = sort_by (precedes [(''sortOrder'', Asc), (''createdAt'', Desc)]) stored"
  by (simp add: BannersPage_def bannersQuery_def useCollection_def rendered_banners_append
        rendered_banners_rows)

text \<open>
  C3. Whatever banners the collection holds, the rows of the loaded page show exactly
  these banners, in ascending \<open>sortOrder\<close> and, among equal \<open>sortOrder\<close>, in descending
  \<open>createdAt\<close>.
\<close>

theorem banner_list_order:
  "sorted_wrt display_order (rendered_banners (BannersPage (Some h) (Some stored)))
   \<and> mset (rendered_banners (BannersPage (Some h) (Some stored))) = mset stored"
proof -
  have "sorted_wrt (precedes [(''sortOrder'', Asc), (''createdAt'', Desc)])
          (sort_by (precedes [(''sortOrder'', Asc), (''createdAt'', Desc)]) stored)"
    by (rule sorted_sort_by) (rule precedes_total, erule precedes_trans, assumption)
  moreover have "precedes [(''sortOrder'', Asc), (''createdAt'', Desc)] = display_order"
    by (intro ext) (rule precedes_bannersQuery)
  ultimately show ?thesis
    by (simp add: rendered_loaded mset_sort_by)
qed

subsection \<open>The schema\<close>

lemma isInteger_iff: "isInteger n \<longleftrightarrow> (\<exists>i::int. n = Finite (of_int i))"
proof (cases n)
  case (Finite q)
  show ?thesis
  proof
    assume "isInteger n"
    with Finite have "n = Finite (of_int \<lfloor>q\<rfloor>)" by simp
    then show "\<exists>i::int. n = Finite (of_int i)" by blast
  next
    assume "\<exists>i::int. n = Finite (of_int i)"
    then show "isInteger n" by auto
  qed
qed auto

lemma parse_title_Inr: "parse_title v = Inr s \<Longrightarrow> v = JStr s \<and> s \<noteq> []"
  by (auto simp: parse_title_def split: js_value.splits if_splits)

lemma parse_imageUrl_Inr: "parse_imageUrl is_url v = Inr s \<Longrightarrow> v = JStr s \<and> is_url s"
  by (auto simp: parse_imageUrl_def split: js_value.splits if_splits)

lemma parse_sortOrder_Inr:
  "parse_sortOrder to_number v = Inr n \<Longrightarrow>
     isInteger n \<and> (if v = JUndefined then n = Finite 0 else n = to_number v)"
  by (auto simp: parse_sortOrder_def Let_def split: if_splits)

lemma bannerSchema_Inr:
  assumes "bannerSchema is_url to_number raw = Inr d"
  shows "parse_title (get_prop raw ''title'') = Inr (title d)"
    and "parse_imageUrl is_url (get_prop raw ''imageUrl'') = Inr (imageUrl d)"
    and "parse_sortOrder to_number (get_prop raw ''sortOrder'') = Inr (sortOrder d)"
  using assms by (auto simp: bannerSchema_def Let_def split: sum.splits)

lemma parse_optional_string_ok:
  "parse_optional_string k (case x of None \<Rightarrow> JUndefined | Some s \<Rightarrow> JStr s) = Inr x"
  by (cases x) (simp_all add: parse_optional_string_def)

lemma parse_isActive_ok:
  "parse_isActive (case ia of None \<Rightarrow> JUndefined | Some b \<Rightarrow> JBool b)
     = Inr (case ia of None \<Rightarrow> True | Some b \<Rightarrow> b)"
  by (cases ia) (simp_all add: parse_isActive_def)

lemma parse_sortOrder_ok:
  "v = JUndefined \<or> isInteger (to_number v) \<Longrightarrow>
     parse_sortOrder to_number v = Inr (if v = JUndefined then Finite 0 else to_number v)"
  by (auto simp: parse_sortOrder_def Let_def)

lemma parse_sortOrder_bad:
  "v \<noteq> JUndefined \<Longrightarrow> \<not> isInteger (to_number v) \<Longrightarrow>
     \<exists>m. parse_sortOrder to_number v = Inl [Issue [''sortOrder''] m]"
  by (simp add: parse_sortOrder_def Let_def invalid_type_def)

lemma bannerSchema_accepts:
  assumes "get_prop raw ''title'' = JStr t" "t \<noteq> []"
    and "get_prop raw ''imageUrl'' = JStr u" "is_url u"
    and "get_prop raw ''subtitle'' = (case st of None \<Rightarrow> JUndefined | Some x \<Rightarrow> JStr x)"
    and "get_prop raw ''ctaLabel'' = (case cl of None \<Rightarrow> JUndefined | Some x \<Rightarrow> JStr x)"
    and "get_prop raw ''ctaLink'' = (case ck of None \<Rightarrow> JUndefined | Some x \<Rightarrow> JStr x)"
    and "get_prop raw ''isActive'' = (case ia of None \<Rightarrow> JUndefined | Some b \<Rightarrow> JBool b)"
    and "get_prop raw ''sortOrder'' = JUndefined
         \<or> isInteger (to_number (get_prop raw ''sortOrder''))"
  shows "bannerSchema is_url to_number raw =
           Inr \<lparr>title = t, subtitle = st, imageUrl = u, ctaLabel = cl, ctaLink = ck,
                isActive = (case ia of None \<Rightarrow> True | Some b \<Rightarrow> b),
                sortOrder = (if get_prop raw ''sortOrder'' = JUndefined then Finite 0
                             else to_number (get_prop raw ''sortOrder''))\<rparr>"
proof -
  have "parse_title (get_prop raw ''title'') = Inr t"
    using assms(1,2) by (simp add: parse_title_def)
  moreover have "parse_imageUrl is_url (get_prop raw ''imageUrl'') = Inr u"
    using assms(3,4) by (simp add: parse_imageUrl_def)
  moreover note parse_optional_string_ok [of "''subtitle''" st]
    parse_optional_string_ok [of "''ctaLabel''" cl]
    parse_optional_string_ok [of "''ctaLink''" ck]
    parse_isActive_ok [of ia]
    parse_sortOrder_ok [where to_number = to_number and v = "get_prop raw ''sortOrder''", OF assms(9)]
  ultimately show ?thesis
    by (simp add: bannerSchema_def assms(5,6,7,8))
qed

lemma bannerSchema_rejects_sortOrder:
  assumes "get_prop raw ''sortOrder'' \<noteq> JUndefined"
    and "\<not> isInteger (to_number (get_prop raw ''sortOrder''))"
  shows "\<exists>is. bannerSchema is_url to_number raw = Inl is
              \<and> (\<exists>m. Issue [''sortOrder''] m \<in> set is)"
proof -
  from parse_sortOrder_bad
         [where to_number = to_number and v = "get_prop raw ''sortOrder''", OF assms]
  obtain m where
    "parse_sortOrder to_number (get_prop raw ''sortOrder'') = Inl [Issue [''sortOrder''] m]"
    by blast
  then show ?thesis
    by (auto simp: bannerSchema_def Let_def issues_of_def split: sum.splits)
qed

text \<open>
  C6. Whenever the banner schema accepts a submitted object, the title is a non-empty
  string, the image URL is a string the URL check accepts, and the resulting
  \<open>sortOrder\<close> is an integer: 0 when none was submitted, the converted value otherwise.
  Conversely, an object with such a title and image URL, optional texts that are strings
  or absent, an \<open>isActive\<close> that is a boolean or absent, and a \<open>sortOrder\<close> that is absent
  or converts to an integer is accepted, with \<open>sortOrder\<close> 0 in the first case and the
  converted value in the second; and a \<open>sortOrder\<close> that is present and does not convert
  to an integer is rejected with an issue on that field.
\<close>

theorem bannerSchema_accepts_only_valid:
  "(bannerSchema is_url to_number raw = Inr d \<longrightarrow>
      get_prop raw ''title'' = JStr (title d) \<and> title d \<noteq> []
      \<and> get_prop raw ''imageUrl'' = JStr (imageUrl d) \<and> is_url (imageUrl d)
      \<and> (\<exists>i::int. sortOrder d = Finite (of_int i))
      \<and> (if get_prop raw ''sortOrder'' = JUndefined then sortOrder d = Finite 0
          else sortOrder d = to_number (get_prop raw ''sortOrder'')))
   \<and> (get_prop raw ''title'' = JStr t \<and> t \<noteq> []
      \<and> get_prop raw ''imageUrl'' = JStr u \<and> is_url u
      \<and> get_prop raw ''subtitle'' = (case st of None \<Rightarrow> JUndefined | Some x \<Rightarrow> JStr x)
      \<and> get_prop raw ''ctaLabel'' = (case cl of None \<Rightarrow> JUndefined | Some x \<Rightarrow> JStr x)
      \<and> get_prop raw ''ctaLink'' = (case ck of None \<Rightarrow> JUndefined | Some x \<Rightarrow> JStr x)
      \<and> get_prop raw ''isActive'' = (case ia of None \<Rightarrow> JUndefined | Some b \<Rightarrow> JBool b)
      \<and> (get_prop raw ''sortOrder'' = JUndefined
          \<or> isInteger (to_number (get_prop raw ''sortOrder''))) \<longrightarrow>
      bannerSchema is_url to_number raw =
        Inr \<lparr>title = t, subtitle = st, imageUrl = u, ctaLabel = cl, ctaLink = ck,
             isActive = (case ia of None \<Rightarrow> True | Some b \<Rightarrow> b),
             sortOrder = (if get_prop raw ''sortOrder'' = JUndefined then Finite 0
                          else to_number (get_prop raw ''sortOrder''))\<rparr>)
   \<and> (get_prop raw ''sortOrder'' \<noteq> JUndefined
      \<and> \<not> isInteger (to_number (get_prop raw ''sortOrder'')) \<longrightarrow>
      (\<exists>is. bannerSchema is_url to_number raw = Inl is
             \<and> (\<exists>m. Issue [''sortOrder''] m \<in> set is)))"
proof -
  have only: "bannerSchema is_url to_number raw = Inr d \<longrightarrow>
      get_prop raw ''title'' = JStr (title d) \<and> title d \<noteq> []
      \<and> get_prop raw ''imageUrl'' = JStr (imageUrl d) \<and> is_url (imageUrl d)
      \<and> (\<exists>i::int. sortOrder d = Finite (of_int i))
      \<and> (if get_prop raw ''sortOrder'' = JUndefined then sortOrder d = Finite 0
          else sortOrder d = to_number (get_prop raw ''sortOrder''))"
  proof
    assume a: "bannerSchema is_url to_number raw = Inr d"
    from parse_title_Inr [OF bannerSchema_Inr(1) [OF a]]
         parse_imageUrl_Inr [OF bannerSchema_Inr(2) [OF a]]
         parse_sortOrder_Inr [OF bannerSchema_Inr(3) [OF a]]
    show "get_prop raw ''title'' = JStr (title d) \<and> title d \<noteq> []
      \<and> get_prop raw ''imageUrl'' = JStr (imageUrl d) \<and> is_url (imageUrl d)
      \<and> (\<exists>i::int. sortOrder d = Finite (of_int i))
      \<and> (if get_prop raw ''sortOrder'' = JUndefined then sortOrder d = Finite 0
          else sortOrder d = to_number (get_prop raw ''sortOrder''))"
      by (simp add: isInteger_iff)
  qed
  have accepted: "get_prop raw ''title'' = JStr t \<and> t \<noteq> []
      \<and> get_prop raw ''imageUrl'' = JStr u \<and> is_url u
      \<and> get_prop raw ''subtitle'' = (case st of None \<Rightarrow> JUndefined | Some x \<Rightarrow> JStr x)
      \<and> get_prop raw ''ctaLabel'' = (case cl of None \<Rightarrow> JUndefined | Some x \<Rightarrow> JStr x)
      \<and> get_prop raw ''ctaLink'' = (case ck of None \<Rightarrow> JUndefined | Some x \<Rightarrow> JStr x)
      \<and> get_prop raw ''isActive'' = (case ia of None \<Rightarrow> JUndefined | Some b \<Rightarrow> JBool b)
      \<and> (get_prop raw ''sortOrder'' = JUndefined
          \<or> isInteger (to_number (get_prop raw ''sortOrder''))) \<longrightarrow>
      bannerSchema is_url to_number raw =
        Inr \<lparr>title = t, subtitle = st, imageUrl = u, ctaLabel = cl, ctaLink = ck,
             isActive = (case ia of None \<Rightarrow> True | Some b \<Rightarrow> b),
             sortOrder = (if get_prop raw ''sortOrder'' = JUndefined then Finite 0
                          else to_number (get_prop raw ''sortOrder''))\<rparr>"
    by (intro impI bannerSchema_accepts) blast+
  have rejected: "get_prop raw ''sortOrder'' \<noteq> JUndefined
      \<and> \<not> isInteger (to_number (get_prop raw ''sortOrder'')) \<longrightarrow>
      (\<exists>is. bannerSchema is_url to_number raw = Inl is
             \<and> (\<exists>m. Issue [''sortOrder''] m \<in> set is))"
    by (intro impI bannerSchema_rejects_sortOrder) blast+
  show ?thesis
    by (rule conjI [OF only conjI [OF accepted rejected]])
qed

text \<open>
  At the samples: the text \<open>5\<close> of an input element is converted and accepted as 5, a banner
  submitted without a sort order gets 0, and the text \<open>1.5\<close> is rejected, not rounded.
\<close>

lemma number_of_samples:
  "number_of (JStr (js ''5'')) = Finite 5"
  "number_of (JStr (js ''1.5'')) = Finite (3 / 2)"
  by code_simp+

lemma not_isInteger_half: "\<not> isInteger (Finite (3 / 2))"
proof -
  have "\<lfloor>(3::rat) / 2\<rfloor> = 1" by (rule floor_unique) simp_all
  then show ?thesis by simp
qed

theorem bannerSchema_accepts_only_valid_witness:
  "bannerSchema starts_https number_of typed_raw =
     Inr \<lparr>title = js ''Sale'', subtitle = Some (js ''Today''), imageUrl = js ''https://x.com/a.png'',
          ctaLabel = None, ctaLink = None, isActive = True, sortOrder = Finite 5\<rparr>
   \<and> bannerSchema starts_https number_of unordered_raw =
     Inr \<lparr>title = js ''Sale'', subtitle = None, imageUrl = js ''https://x.com/a.png'',
          ctaLabel = None, ctaLink = None, isActive = True, sortOrder = Finite 0\<rparr>
   \<and> get_prop fraction_raw ''sortOrder'' \<noteq> JUndefined
   \<and> \<not> isInteger (number_of (get_prop fraction_raw ''sortOrder''))
   \<and> (\<exists>is. bannerSchema starts_https number_of fraction_raw = Inl is
            \<and> (\<exists>m. Issue [''sortOrder''] m \<in> set is))
   \<and> get_prop typed_raw ''title'' = JStr (js ''Sale'')
   \<and> starts_https (js ''https://x.com/a.png'')"
proof -
  have u: "starts_https (js ''https://x.com/a.png'')"
    by (simp add: starts_https_def js_def)
  have five: "isInteger (number_of (JStr (js ''5'')))"
    by (simp add: number_of_samples(1) del: number_of.simps)
  have typed: "get_prop typed_raw ''title'' = JStr (js ''Sale'') \<and> js ''Sale'' \<noteq> []
      \<and> get_prop typed_raw ''imageUrl'' = JStr (js ''https://x.com/a.png'')
      \<and> starts_https (js ''https://x.com/a.png'')
      \<and> get_prop typed_raw ''subtitle''
           = (case Some (js ''Today'') of None \<Rightarrow> JUndefined | Some x \<Rightarrow> JStr x)
      \<and> get_prop typed_raw ''ctaLabel'' = (case None of None \<Rightarrow> JUndefined | Some x \<Rightarrow> JStr x)
      \<and> get_prop typed_raw ''ctaLink'' = (case None of None \<Rightarrow> JUndefined | Some x \<Rightarrow> JStr x)
      \<and> get_prop typed_raw ''isActive'' = (case None of None \<Rightarrow> JUndefined | Some b \<Rightarrow> JBool b)
      \<and> (get_prop typed_raw ''sortOrder'' = JUndefined
          \<or> isInteger (number_of (get_prop typed_raw ''sortOrder'')))"
    using u five
    by (simp add: typed_raw_def sale_raw_def get_prop_def js_def del: number_of.simps isInteger.simps)
  have unordered: "get_prop unordered_raw ''title'' = JStr (js ''Sale'') \<and> js ''Sale'' \<noteq> []
      \<and> get_prop unordered_raw ''imageUrl'' = JStr (js ''https://x.com/a.png'')
      \<and> starts_https (js ''https://x.com/a.png'')
      \<and> get_prop unordered_raw ''subtitle'' = (case None of None \<Rightarrow> JUndefined | Some x \<Rightarrow> JStr x)
      \<and> get_prop unordered_raw ''ctaLabel'' = (case None of None \<Rightarrow> JUndefined | Some x \<Rightarrow> JStr x)
      \<and> get_prop unordered_raw ''ctaLink'' = (case None of None \<Rightarrow> JUndefined | Some x \<Rightarrow> JStr x)
      \<and> get_prop unordered_raw ''isActive'' = (case None of None \<Rightarrow> JUndefined | Some b \<Rightarrow> JBool b)
      \<and> (get_prop unordered_raw ''sortOrder'' = JUndefined
          \<or> isInteger (number_of (get_prop unordered_raw ''sortOrder'')))"
    using u by (simp add: unordered_raw_def get_prop_def js_def)
  have so5: "get_prop typed_raw ''sortOrder'' = JStr (js ''5'')"
    and so0: "get_prop unordered_raw ''sortOrder'' = JUndefined"
    and sof: "get_prop fraction_raw ''sortOrder'' = JStr (js ''1.5'')"
    by (simp_all add: typed_raw_def unordered_raw_def fraction_raw_def sale_raw_def get_prop_def)
  have frac: "get_prop fraction_raw ''sortOrder'' \<noteq> JUndefined
      \<and> \<not> isInteger (number_of (get_prop fraction_raw ''sortOrder''))"
    using not_isInteger_half
    by (simp add: sof number_of_samples(2) del: number_of.simps isInteger.simps)
  have r1: "bannerSchema starts_https number_of typed_raw =
     Inr \<lparr>title = js ''Sale'', subtitle = Some (js ''Today''), imageUrl = js ''https://x.com/a.png'',
          ctaLabel = None, ctaLink = None, isActive = True, sortOrder = Finite 5\<rparr>"
    using bannerSchema_accepts_only_valid
            [where is_url = starts_https and to_number = number_of and raw = typed_raw
               and t = "js ''Sale''" and u = "js ''https://x.com/a.png''"
               and st = "Some (js ''Today'')" and cl = None and ck = None and ia = None
               and d = sale_data,
             THEN conjunct2, THEN conjunct1, THEN mp, OF typed]
    by (simp add: so5 number_of_samples(1) del: number_of.simps isInteger.simps)
  have r2: "bannerSchema starts_https number_of unordered_raw =
     Inr \<lparr>title = js ''Sale'', subtitle = None, imageUrl = js ''https://x.com/a.png'',
          ctaLabel = None, ctaLink = None, isActive = True, sortOrder = Finite 0\<rparr>"
    using bannerSchema_accepts_only_valid
            [where is_url = starts_https and to_number = number_of and raw = unordered_raw
               and t = "js ''Sale''" and u = "js ''https://x.com/a.png''"
               and st = None and cl = None and ck = None and ia = None and d = sale_data,
             THEN conjunct2, THEN conjunct1, THEN mp, OF unordered]
    by (simp add: so0 del: number_of.simps isInteger.simps)
  have r3: "\<exists>is. bannerSchema starts_https number_of fraction_raw = Inl is
            \<and> (\<exists>m. Issue [''sortOrder''] m \<in> set is)"
    by (rule bannerSchema_accepts_only_valid
            [where is_url = starts_https and to_number = number_of and raw = fraction_raw
               and t = "js ''Sale''" and u = "js ''https://x.com/a.png''"
               and st = None and cl = None and ck = None and ia = None and d = sale_data,
             THEN conjunct2, THEN conjunct2, THEN mp, OF frac])
  have r4: "get_prop typed_raw ''title'' = JStr (js ''Sale'')"
    using bannerSchema_accepts_only_valid
            [where is_url = starts_https and to_number = number_of and raw = typed_raw
               and t = "js ''Sale''" and u = "js ''https://x.com/a.png''"
               and st = "Some (js ''Today'')" and cl = None and ck = None and ia = None
               and d = "\<lparr>title = js ''Sale'', subtitle = Some (js ''Today''),
                         imageUrl = js ''https://x.com/a.png'', ctaLabel = None, ctaLink = None,
                         isActive = True, sortOrder = Finite 5\<rparr>",
             THEN conjunct1, THEN mp, OF r1]
    by simp
  from r1 r2 r3 r4 frac u show ?thesis by blast
qed

lemma bannerSchema_sale: "bannerSchema starts_https number_of sale_raw = Inr sale_data"
  by (simp add: bannerSchema_def sale_raw_def sale_data_def get_prop_def parse_title_def
        parse_optional_string_def parse_imageUrl_def parse_isActive_def parse_sortOrder_def
        starts_https_def js_def)

subsection \<open>Submitting the form\<close>

lemma onSubmit_saved:
  "banner_write target new_id d db = Inr db' \<Longrightarrow>
   onSubmit (Some h) target new_id d (db, s) =
     (db', s\<lparr>dialog_open := False, form_loading := False,
              form_toasts := form_toasts s @ [saved_toast target],
              finished := Suc (finished s)\<rparr>)"
  by (simp add: onSubmit_def onFinished_def notify_def)

lemma onSubmit_rejected:
  "banner_write target new_id d db = Inl err \<Longrightarrow>
   onSubmit (Some h) target new_id d (db, s) =
     (db, s\<lparr>form_loading := False,
             form_toasts := form_toasts s @
               [Toast (Some ''destructive'') ''Error saving banner'' (Some (err_message err))]\<rparr>)"
  by (simp add: onSubmit_def onFinished_def notify_def)

lemma onSubmit_no_handle: "onSubmit None target new_id d (db, s) = (db, s)"
  by (simp add: onSubmit_def)

text \<open>
  C9. For a create and for an edit alike, \<open>onFinished\<close> is invoked once when the write
  succeeds and not at all otherwise. When the write is rejected, the dialog's open flag is
  what it was, the database is what it was, and a notification "Error saving banner"
  carries the error's message.
\<close>

theorem onFinished_iff_write_succeeds:
  "finished (snd (onSubmit fs target new_id d (db, s)))
     = (if fs \<noteq> None \<and> \<not> isl (banner_write target new_id d db)
        then Suc (finished s) else finished s)
   \<and> (fs \<noteq> None \<and> banner_write target new_id d db = Inl err \<longrightarrow>
        dialog_open (snd (onSubmit fs target new_id d (db, s))) = dialog_open s
        \<and> form_toasts (snd (onSubmit fs target new_id d (db, s)))
            = form_toasts s @
                [Toast (Some ''destructive'') ''Error saving banner'' (Some (err_message err))]
        \<and> form_loading (snd (onSubmit fs target new_id d (db, s))) = False
        \<and> fst (onSubmit fs target new_id d (db, s)) = db)"
proof (cases fs)
  case None
  then show ?thesis by (simp add: onSubmit_no_handle)
next
  case (Some h)
  show ?thesis
  proof (cases "banner_write target new_id d db")
    case (Inl e)
    with Some show ?thesis by (simp add: onSubmit_rejected)
  next
    case (Inr db')
    with Some show ?thesis by (simp add: onSubmit_saved)
  qed
qed

lemma valid_createFields: "valid_data (createFields d)"
  by (cases "subtitle d"; cases "ctaLabel d"; cases "ctaLink d")
     (simp_all add: createFields_def formFields_def optional_field_def object_def valid_data_def)

lemma valid_editFields: "valid_data (editFields d)"
  by (cases "subtitle d"; cases "ctaLabel d"; cases "ctaLink d")
     (simp_all add: editFields_def formFields_def optional_field_def object_def valid_data_def)

theorem onFinished_iff_write_succeeds_witness:
  "banner_write None (js ''b2'') sale_data offline = Inl unavailable
   \<and> finished (snd (onSubmit (Some Firestore) None (js ''b2'') sale_data (offline, dialog_shown))) = 0
   \<and> dialog_open (snd (onSubmit (Some Firestore) None (js ''b2'') sale_data (offline, dialog_shown)))
   \<and> form_toasts (snd (onSubmit (Some Firestore) None (js ''b2'') sale_data (offline, dialog_shown)))
       = [Toast (Some ''destructive'') ''Error saving banner''
            (Some (js ''The service is currently unavailable.''))]
   \<and> finished (snd (onSubmit (Some Firestore) None (js ''b2'') sale_data (no_faults, dialog_shown))) = 1"
proof -
  have w: "banner_write None (js ''b2'') sale_data offline = Inl unavailable"
    by (simp add: banner_write_def addDoc_def setDoc_def valid_createFields offline_def
          no_faults_def)
  have ok: "\<not> isl (banner_write None (js ''b2'') sale_data no_faults)"
    by (simp add: banner_write_def addDoc_def setDoc_def valid_createFields no_faults_def)
  from onFinished_iff_write_succeeds
         [of "Some Firestore" None "js ''b2''" sale_data offline dialog_shown unavailable] w
       onFinished_iff_write_succeeds
         [of "Some Firestore" None "js ''b2''" sale_data no_faults dialog_shown unavailable] ok
  show ?thesis
    by (simp add: dialog_shown_def unavailable_def)
qed

lemma editFields_at:
  "map_of (editFields d) k =
     (if k = ''title'' then Some (JStr (title d))
      else if k = ''subtitle'' then map_option JStr (subtitle d)
      else if k = ''imageUrl'' then Some (JStr (imageUrl d))
      else if k = ''ctaLabel'' then map_option JStr (ctaLabel d)
      else if k = ''ctaLink'' then map_option JStr (ctaLink d)
      else if k = ''isActive'' then Some (JBool (isActive d))
      else if k = ''sortOrder'' then Some (JNum (sortOrder d))
      else if k = ''updatedAt'' then Some JServerTimestamp
      else None)"
  by (cases "subtitle d"; cases "ctaLabel d"; cases "ctaLink d")
     (simp_all add: editFields_def formFields_def optional_field_def object_def)

lemma editFields_outside: "k \<notin> written_by_edit \<Longrightarrow> map_of (editFields d) k = None"
  by (simp add: editFields_at written_by_edit_def)

lemma banner_edit_write:
  "banner_write (Some b) new_id d db =
     (case write_fault db of
        Some e \<Rightarrow> Inl e
      | None \<Rightarrow>
          (case docs db (''banners'', banner_id b) of
             None \<Rightarrow> Inl (update_missing db)
           | Some old \<Rightarrow>
               Inr (db\<lparr>docs := (docs db)((''banners'', banner_id b) \<mapsto>
                                   old ++ map_of (editFields d))\<rparr>)))"
  by (simp add: banner_write_def updateDoc_def valid_editFields)

lemma edit_frame:
  assumes "onSubmit fs (Some b) new_id d (db, s) = (db', s')"
  shows "dom (docs db') = dom (docs db)
    \<and> (r \<noteq> (''banners'', banner_id b) \<longrightarrow> docs db' r = docs db r)
    \<and> (k \<notin> written_by_edit \<longrightarrow> field_at db' r k = field_at db r k)"
proof -
  have "db' = db \<or> (\<exists>old. docs db (''banners'', banner_id b) = Some old
          \<and> db' = db\<lparr>docs := (docs db)((''banners'', banner_id b) \<mapsto>
                                     old ++ map_of (editFields d))\<rparr>)"
    using assms
    by (auto simp: onSubmit_def banner_edit_write Let_def split: option.splits sum.splits)
  then consider (same) "db' = db"
    | (merged) old where "docs db (''banners'', banner_id b) = Some old"
        "db' = db\<lparr>docs := (docs db)((''banners'', banner_id b) \<mapsto>
                                  old ++ map_of (editFields d))\<rparr>"
    by blast
  then show ?thesis
  proof cases
    case same
    then show ?thesis by simp
  next
    case merged
    have "k \<notin> written_by_edit \<Longrightarrow> (old ++ map_of (editFields d)) k = old k"
      by (simp add: map_add_def editFields_outside)
    with merged show ?thesis
      by (auto simp: field_at_def)
  qed
qed

lemma edit_success:
  assumes "write_fault db = None" and "docs db (''banners'', banner_id b) \<noteq> None"
  shows "field_at (fst (onSubmit (Some h) (Some b) new_id d (db, s))) (''banners'', banner_id b) k
           = (case map_of (editFields d) k of
                Some v \<Rightarrow> Some v
              | None \<Rightarrow> field_at db (''banners'', banner_id b) k)"
proof -
  from assms(2) obtain old where old: "docs db (''banners'', banner_id b) = Some old"
    by blast
  with assms(1) have "banner_write (Some b) new_id d db =
      Inr (db\<lparr>docs := (docs db)((''banners'', banner_id b) \<mapsto> old ++ map_of (editFields d))\<rparr>)"
    by (simp add: banner_edit_write)
  then have "fst (onSubmit (Some h) (Some b) new_id d (db, s)) =
      db\<lparr>docs := (docs db)((''banners'', banner_id b) \<mapsto> old ++ map_of (editFields d))\<rparr>"
    by (simp add: onSubmit_def)
  with old show ?thesis
    by (simp add: field_at_def map_add_def split: option.splits)
qed

lemma submit_banner_cases:
  "submit_banner is_url to_number fs target new_id raw (db, s) =
     (case bannerSchema is_url to_number raw of
        Inl errs \<Rightarrow> (db, s\<lparr>form_errors := errs\<rparr>)
      | Inr d \<Rightarrow> onSubmit fs target new_id d (db, s\<lparr>form_errors := []\<rparr>))"
  by (cases "bannerSchema is_url to_number raw")
     (simp_all add: submit_banner_def handleSubmit_def set_form_errors_def)

lemma submit_edit_frame:
  "dom (docs (fst (submit_banner is_url to_number fs (Some b) new_id raw (db, s)))) = dom (docs db)
   \<and> (r \<noteq> (''banners'', banner_id b) \<longrightarrow>
        docs (fst (submit_banner is_url to_number fs (Some b) new_id raw (db, s))) r = docs db r)
   \<and> (k \<notin> written_by_edit \<longrightarrow>
        field_at (fst (submit_banner is_url to_number fs (Some b) new_id raw (db, s))) r k
          = field_at db r k)"
proof (cases "bannerSchema is_url to_number raw")
  case (Inl errs)
  then show ?thesis by (simp add: submit_banner_cases)
next
  case (Inr d)
  obtain db' s' where e: "onSubmit fs (Some b) new_id d (db, s\<lparr>form_errors := []\<rparr>) = (db', s')"
    by (cases "onSubmit fs (Some b) new_id d (db, s\<lparr>form_errors := []\<rparr>)")
  have sub: "submit_banner is_url to_number fs (Some b) new_id raw (db, s) = (db', s')"
    using Inr e by (simp add: submit_banner_cases)
  from edit_frame [OF e] show ?thesis
    unfolding sub by simp
qed

lemma submit_edit_success:
  assumes "bannerSchema is_url to_number raw = Inr d"
    and "write_fault db = None" and "docs db (''banners'', banner_id b) \<noteq> None"
  shows "field_at (fst (submit_banner is_url to_number (Some h) (Some b) new_id raw (db, s)))
           (''banners'', banner_id b) k
         = (case map_of (editFields d) k of
              Some v \<Rightarrow> Some v
            | None \<Rightarrow> field_at db (''banners'', banner_id b) k)"
  using edit_success [OF assms(2,3), of h new_id d "s\<lparr>form_errors := []\<rparr>" k]
  by (simp add: submit_banner_cases assms(1))

text \<open>
  C10. The object an edit writes holds the values of the parsed form data under their
  keys, an optional text only when it is present, and \<open>updatedAt\<close> set to the server
  timestamp; it holds nothing else. When the form values are accepted and the store
  performs the update, each of these fields of the banner's document has the written value
  afterwards and every other field of the document is what it was. Whatever the raw values
  of the form hold and whatever the store answers, \<open>createdAt\<close> and \<open>id\<close> are not among the
  keys written, every field outside the written keys keeps its value, no document is
  added or removed, and no other document changes.
\<close>

theorem edit_writes_only_form_fields:
  "map_of (editFields d) k =
     (if k = ''title'' then Some (JStr (title d))
      else if k = ''subtitle'' then map_option JStr (subtitle d)
      else if k = ''imageUrl'' then Some (JStr (imageUrl d))
      else if k = ''ctaLabel'' then map_option JStr (ctaLabel d)
      else if k = ''ctaLink'' then map_option JStr (ctaLink d)
      else if k = ''isActive'' then Some (JBool (isActive d))
      else if k = ''sortOrder'' then Some (JNum (sortOrder d))
      else if k = ''updatedAt'' then Some JServerTimestamp
      else None)
   \<and> (bannerSchema is_url to_number raw = Inr d \<and> write_fault db = None
        \<and> docs db (''banners'', banner_id b) \<noteq> None \<longrightarrow>
      field_at (fst (submit_banner is_url to_number (Some h) (Some b) new_id raw (db, s)))
        (''banners'', banner_id b) k
        = (case map_of (editFields d) k of
             Some v \<Rightarrow> Some v
           | None \<Rightarrow> field_at db (''banners'', banner_id b) k))
   \<and> ''createdAt'' \<notin> written_by_edit \<and> ''id'' \<notin> written_by_edit
   \<and> dom (docs (fst (submit_banner is_url to_number fs (Some b) new_id raw (db, s)))) = dom (docs db)
   \<and> (k \<notin> written_by_edit \<longrightarrow>
        field_at (fst (submit_banner is_url to_number fs (Some b) new_id raw (db, s))) r k
          = field_at db r k)
   \<and> (r \<noteq> (''banners'', banner_id b) \<longrightarrow>
        docs (fst (submit_banner is_url to_number fs (Some b) new_id raw (db, s))) r = docs db r)"
proof -
  have written: "bannerSchema is_url to_number raw = Inr d \<and> write_fault db = None
        \<and> docs db (''banners'', banner_id b) \<noteq> None \<longrightarrow>
      field_at (fst (submit_banner is_url to_number (Some h) (Some b) new_id raw (db, s)))
        (''banners'', banner_id b) k
        = (case map_of (editFields d) k of
             Some v \<Rightarrow> Some v
           | None \<Rightarrow> field_at db (''banners'', banner_id b) k)"
    by (intro impI submit_edit_success) blast+
  have keys: "''createdAt'' \<notin> written_by_edit" "''id'' \<notin> written_by_edit"
    by (simp_all add: written_by_edit_def)
  note frame = submit_edit_frame
    [where is_url = is_url and to_number = to_number and fs = fs and b = b
       and new_id = new_id and raw = raw and db = db and s = s and r = r and k = k]
  show ?thesis
    by (rule conjI [OF editFields_at conjI [OF written conjI [OF keys(1) conjI [OF keys(2)
          conjI [OF frame [THEN conjunct1] conjI [OF frame [THEN conjunct2, THEN conjunct2]
            frame [THEN conjunct2, THEN conjunct1]]]]]]])
qed

lemma bannerSchema_edit_raw: "bannerSchema starts_https number_of edit_raw = Inr sale_data"
  by (simp add: bannerSchema_def edit_raw_def sale_raw_def sale_data_def get_prop_def
        parse_title_def parse_optional_string_def parse_imageUrl_def parse_isActive_def
        parse_sortOrder_def starts_https_def js_def)

theorem edit_writes_only_form_fields_witness:
  "bannerSchema starts_https number_of edit_raw = Inr sale_data
   \<and> write_fault with_sale_banner = None
   \<and> docs with_sale_banner (''banners'', banner_id sale_banner) \<noteq> None
   \<and> field_at (fst (submit_banner starts_https number_of (Some Firestore) (Some sale_banner)
                      (js ''b2'') edit_raw (with_sale_banner, dialog_shown)))
        (''banners'', banner_id sale_banner) ''title'' = Some (JStr (js ''Sale''))
   \<and> field_at (fst (submit_banner starts_https number_of (Some Firestore) (Some sale_banner)
                      (js ''b2'') edit_raw (with_sale_banner, dialog_shown)))
        (''banners'', banner_id sale_banner) ''ctaLabel'' = Some (JStr (js ''Shop''))
   \<and> ''createdAt'' \<notin> written_by_edit
   \<and> field_at (fst (submit_banner starts_https number_of (Some Firestore) (Some sale_banner)
                      (js ''b2'') edit_raw (with_sale_banner, dialog_shown)))
        (''banners'', banner_id sale_banner) ''createdAt'' = Some (JNum (Finite 100))
   \<and> (''users'', js ''u1'') \<noteq> (''banners'', banner_id sale_banner)
   \<and> docs (fst (submit_banner starts_https number_of (Some Firestore) (Some sale_banner)
                   (js ''b2'') edit_raw (with_sale_banner, dialog_shown)))
        (''users'', js ''u1'') = None"
proof -
  have hyp: "bannerSchema starts_https number_of edit_raw = Inr sale_data
      \<and> write_fault with_sale_banner = None
      \<and> docs with_sale_banner (''banners'', banner_id sale_banner) \<noteq> None"
    by (simp add: bannerSchema_edit_raw with_sale_banner_def no_faults_def sale_banner_def)
  have k: "''createdAt'' \<notin> written_by_edit"
    by (simp add: written_by_edit_def)
  have r: "(''users'', js ''u1'') \<noteq> (''banners'', banner_id sale_banner)"
    by simp
  have before: "field_at with_sale_banner (''banners'', banner_id sale_banner) ''createdAt''
                  = Some (JNum (Finite 100))"
    "field_at with_sale_banner (''banners'', banner_id sale_banner) ''ctaLabel''
                  = Some (JStr (js ''Shop''))"
    "docs with_sale_banner (''users'', js ''u1'') = None"
    by (simp_all add: field_at_def with_sale_banner_def no_faults_def sale_banner_def)
  note T = edit_writes_only_form_fields
    [where is_url = starts_https and to_number = number_of and raw = edit_raw
       and d = sale_data and db = with_sale_banner and b = sale_banner and h = Firestore
       and fs = "Some Firestore" and new_id = "js ''b2''" and s = dialog_shown]
  have title: "field_at (fst (submit_banner starts_https number_of (Some Firestore) (Some sale_banner)
                      (js ''b2'') edit_raw (with_sale_banner, dialog_shown)))
        (''banners'', banner_id sale_banner) ''title'' = Some (JStr (js ''Sale''))"
    using T [where k = "''title''" and r = "(''users'', js ''u1'')",
             THEN conjunct2, THEN conjunct1, THEN mp, OF hyp]
          T [where k = "''title''" and r = "(''users'', js ''u1'')", THEN conjunct1]
    by (simp add: sale_data_def)
  have label: "field_at (fst (submit_banner starts_https number_of (Some Firestore) (Some sale_banner)
                      (js ''b2'') edit_raw (with_sale_banner, dialog_shown)))
        (''banners'', banner_id sale_banner) ''ctaLabel'' = Some (JStr (js ''Shop''))"
    using T [where k = "''ctaLabel''" and r = "(''users'', js ''u1'')",
             THEN conjunct2, THEN conjunct1, THEN mp, OF hyp]
          T [where k = "''ctaLabel''" and r = "(''users'', js ''u1'')", THEN conjunct1]
          before(2)
    by (simp add: sale_data_def)
  have created: "field_at (fst (submit_banner starts_https number_of (Some Firestore) (Some sale_banner)
                      (js ''b2'') edit_raw (with_sale_banner, dialog_shown)))
        (''banners'', banner_id sale_banner) ''createdAt'' = Some (JNum (Finite 100))"
    using T [where k = "''createdAt''" and r = "(''banners'', banner_id sale_banner)",
             THEN conjunct2, THEN conjunct2, THEN conjunct2, THEN conjunct2, THEN conjunct2,
             THEN conjunct1, THEN mp, OF k]
          before(1)
    by simp
  have other: "docs (fst (submit_banner starts_https number_of (Some Firestore) (Some sale_banner)
                   (js ''b2'') edit_raw (with_sale_banner, dialog_shown)))
        (''users'', js ''u1'') = None"
    using T [where k = "''createdAt''" and r = "(''users'', js ''u1'')",
             THEN conjunct2, THEN conjunct2, THEN conjunct2, THEN conjunct2, THEN conjunct2,
             THEN conjunct2, THEN mp, OF r]
          before(3)
    by simp
  from hyp k r title label created other show ?thesis by blast
qed

section \<open>Suggestion flow: properties\<close>

lemma js_append: "js (a @ b) = js a @ js b"
  by (simp add: js_def)

lemma js_Nil: "js [] = []"
  by (simp add: js_def)

lemma render_item:
  "concat (map (render (item_context c))
     [Text ''      - '', Var ''name'', Text '': '', Var ''description'', Text (line [])])
   = js ''      - '' @ item_name c @ js '': '' @ item_description c @ js (line [])"
  by (simp add: item_context_def)

lemma lookup_cartItems:
  "hb_lookup (input_context i) ''cartItems''
     = (case cartItems i of None \<Rightarrow> HUndefined | Some cs \<Rightarrow> HList (map item_context cs))"
  by (simp add: input_context_def split: option.splits)

lemma lookup_requirements:
  "hb_lookup (input_context i) ''requirements''
     = (case requirements i of None \<Rightarrow> HUndefined | Some r \<Rightarrow> HStr r)"
  by (simp add: input_context_def split: option.splits)

lemma render_requirements:
  "render (input_context i) (Var ''requirements'')
     = (case requirements i of None \<Rightarrow> [] | Some r \<Rightarrow> r)"
  by (simp add: lookup_requirements split: option.splits)

lemma render_cart:
  "render (input_context i)
     (If ''cartItems''
        [Each ''cartItems''
           [Text ''      - '', Var ''name'', Text '': '', Var ''description'', Text (line [])]]
        [Text (line ''    No items in cart.'')])
   = (case cartItems i of
        Some (c # cs) \<Rightarrow>
          concat (map (\<lambda>c. js ''      - '' @ item_name c @ js '': '' @ item_description c @ js (line []))
                    (c # cs))
      | _ \<Rightarrow> js (line ''    No items in cart.''))"
proof (cases "cartItems i")
  case None
  then show ?thesis by (simp add: lookup_cartItems)
next
  case (Some cs)
  show ?thesis
  proof (cases cs)
    case Nil
    with Some show ?thesis by (simp add: lookup_cartItems)
  next
    case (Cons c cs')
    have "concat (map (\<lambda>x. concat (map (render x)
              [Text ''      - '', Var ''name'', Text '': '', Var ''description'', Text (line [])]))
            (map item_context cs))
          = concat (map (\<lambda>c. js ''      - '' @ item_name c @ js '': '' @ item_description c @ js (line [])) cs)"
      by (simp only: map_map o_def render_item)
    with Some Cons show ?thesis
      by (simp add: lookup_cartItems del: render.simps(1,2) add: render.simps(3,4))
  qed
qed

lemma render_prompt_parts:
  "render_prompt i =
     js prompt_head
     @ (case cartItems i of
          Some (c # cs) \<Rightarrow>
            concat (map (\<lambda>c. js ''      - '' @ item_name c @ js '': '' @ item_description c @ js (line []))
                      (c # cs))
        | _ \<Rightarrow> js (line ''    No items in cart.''))
     @ js (line [] @ ''  Requirements: '')
     @ (case requirements i of None \<Rightarrow> [] | Some r \<Rightarrow> r)
     @ js (line [] @ line [] @ ''  Suggestions:'')"
  unfolding render_prompt_def prompt_template_def
  by (simp only: list.map concat.simps render_cart render_requirements render.simps(1)
        append_Nil2 append_assoc)

text \<open>
  C7. When the remote call is rejected the flow fails with that error, and when the
  call returns a value that is not an object with a list of strings under \<open>suggestions\<close>
  the flow fails too; in neither case is a list returned. The model is called exactly once
  per request.
\<close>

theorem flow_failure_propagates:
  "(model (render_prompt input) = Inl e \<longrightarrow>
      suggestCompatibleProducts model input sent
        = (Inl (RemoteError e), sent @ [render_prompt input]))
   \<and> (model (render_prompt input) = Inr v \<and> OutputSchema v = None \<longrightarrow>
      suggestCompatibleProducts model input sent
        = (Inl SchemaViolation, sent @ [render_prompt input]))
   \<and> snd (suggestCompatibleProducts model input sent) = sent @ [render_prompt input]"
  by (auto simp: suggestCompatibleProducts_def suggestCompatibleProductsFlow_def defineFlow_def
        flow_body_def prompt_def split: sum.splits option.splits)

theorem flow_failure_propagates_witness:
  "rejecting_model (render_prompt empty_request) = Inl unavailable
   \<and> suggestCompatibleProducts rejecting_model empty_request []
       = (Inl (RemoteError unavailable), [render_prompt empty_request])
   \<and> silent_model (render_prompt empty_request) = Inr JNull \<and> OutputSchema JNull = None
   \<and> suggestCompatibleProducts silent_model empty_request []
       = (Inl SchemaViolation, [render_prompt empty_request])"
proof -
  have r: "rejecting_model (render_prompt empty_request) = Inl unavailable"
    by (simp add: rejecting_model_def)
  have q: "silent_model (render_prompt empty_request) = Inr JNull \<and> OutputSchema JNull = None"
    by (simp add: silent_model_def)
  from flow_failure_propagates
         [where model = rejecting_model and input = empty_request and e = unavailable
            and sent = "[]"] r
       flow_failure_propagates
         [where model = silent_model and input = empty_request and v = JNull and sent = "[]"] q
  show ?thesis by simp
qed

text \<open>
  C8. The rendered prompt is the head of the template, the cart section, the requirements
  line and the tail. The cart section is the lines of the items when the list is present
  and non-empty, and the line "No items in cart." otherwise; an absent requirements string
  adds nothing. For an empty list and empty requirements the whole prompt is the fixed
  text below.
\<close>

theorem prompt_cart_section:
  "render_prompt i =
     js prompt_head
     @ (case cartItems i of
          Some (c # cs) \<Rightarrow>
            concat (map (\<lambda>c. js ''      - '' @ item_name c @ js '': '' @ item_description c @ js (line []))
                      (c # cs))
        | _ \<Rightarrow> js (line ''    No items in cart.''))
     @ js (line [] @ ''  Requirements: '')
     @ (case requirements i of None \<Rightarrow> [] | Some r \<Rightarrow> r)
     @ js (line [] @ line [] @ ''  Suggestions:'')
   \<and> render_prompt \<lparr>cartItems = Some [], requirements = Some (js [])\<rparr> =
       js (prompt_head
           @ line ''    No items in cart.''
           @ line []
           @ line ''  Requirements: ''
           @ line []
           @ ''  Suggestions:'')"
proof
  show "render_prompt i =
     js prompt_head
     @ (case cartItems i of
          Some (c # cs) \<Rightarrow>
            concat (map (\<lambda>c. js ''      - '' @ item_name c @ js '': '' @ item_description c @ js (line []))
                      (c # cs))
        | _ \<Rightarrow> js (line ''    No items in cart.''))
     @ js (line [] @ ''  Requirements: '')
     @ (case requirements i of None \<Rightarrow> [] | Some r \<Rightarrow> r)
     @ js (line [] @ line [] @ ''  Suggestions:'')"
    by (rule render_prompt_parts)
  show "render_prompt \<lparr>cartItems = Some [], requirements = Some (js [])\<rparr> =
       js (prompt_head
           @ line ''    No items in cart.''
           @ line []
           @ line ''  Requirements: ''
           @ line []
           @ ''  Suggestions:'')"
    by (simp add: render_prompt_parts js_Nil line_def js_append [symmetric])
qed

end
